theory Spec2Isabelle
  imports Main "HOL-Library.Word"
begin

section \<open>Values of the plugin framework\<close>

text \<open>
  A \<open>types.String\<close> is null, unknown or a known Go string; \<open>ValueString\<close> yields the
  empty string for the first two. \<open>types.Bool\<close>, \<open>types.Int64\<close> and \<open>types.Set\<close>
  have the same three states. A set keeps its elements in iteration order.
\<close>

datatype tfstring = StringNull | StringUnknown | StringValue string

fun IsNull :: "tfstring \<Rightarrow> bool" where
  "IsNull StringNull = True"
| "IsNull StringUnknown = False"
| "IsNull (StringValue s) = False"

fun ValueString :: "tfstring \<Rightarrow> string" where
  "ValueString StringNull = []"
| "ValueString StringUnknown = []"
| "ValueString (StringValue s) = s"

datatype tfbool = BoolNull | BoolUnknown | BoolValue bool

datatype tfint64 = Int64Null | Int64Unknown | Int64Value "64 word"

fun ValueInt64 :: "tfint64 \<Rightarrow> 64 word" where
  "ValueInt64 Int64Null = 0"
| "ValueInt64 Int64Unknown = 0"
| "ValueInt64 (Int64Value n) = n"

datatype 'a tfset = SetNull | SetUnknown | SetValue "'a list"

text \<open>
  \<open>ElementsAs(ctx, &target, false)\<close> into a Go slice: the first component is
  \<open>diags.HasError()\<close>, the second the slice afterwards. A null set leaves the nil slice
  without error, an unknown set is an error, a known set yields its elements.
\<close>

fun ElementsAs :: "'a tfset \<Rightarrow> bool \<times> 'a list" where
  "ElementsAs SetNull = (False, [])"
| "ElementsAs SetUnknown = (True, [])"
| "ElementsAs (SetValue xs) = (False, xs)"

subsection \<open>Diagnostics\<close>

datatype severity = SeverityError | SeverityWarning

record diagnostic =
  Severity :: severity
  Summary :: string
  Detail :: string

type_synonym diagnostics = "diagnostic list"

fun HasError :: "diagnostics \<Rightarrow> bool" where
  "HasError [] = False"
| "HasError (d # ds) = (Severity d = SeverityError \<or> HasError ds)"

text \<open>
  \<open>Diagnostics.Append\<close> adds the diagnostics that the collection does not hold yet, in
  order; \<open>AddError\<close> appends one error diagnostic in this way.
\<close>

fun Append :: "diagnostics \<Rightarrow> diagnostics \<Rightarrow> diagnostics" where
  "Append ds [] = ds"
| "Append ds (d # rest) = Append (if d \<in> set ds then ds else ds @ [d]) rest"

definition AddError :: "diagnostics \<Rightarrow> string \<Rightarrow> string \<Rightarrow> diagnostics" where
  "AddError ds summary detail =
     Append ds [\<lparr>Severity = SeverityError, Summary = summary, Detail = detail\<rparr>]"

subsection \<open>Requests, responses, outcomes\<close>

text \<open>
  \<open>req.Plan.Get\<close>, \<open>req.State.Get\<close> and \<open>req.Config.Get\<close> decode the request into a
  model and return diagnostics: a request carries both. A response holds the diagnostics
  and the state (\<open>None\<close> while no state is stored).
  A nil pointer dereference ends the operation in \<open>Panic\<close>.
\<close>

record 'm Request =
  Value :: 'm
  GetDiags :: diagnostics

record 'm Response =
  Diagnostics :: diagnostics
  State :: "'m option"

text \<open>
  \<open>resp.State.Set(ctx, &model)\<close> converts the model against the schema of the state and
  returns the diagnostics of that conversion (the framework's set type, for instance,
  answers a set with equal elements by the error \<open>Duplicate Set Element\<close>). When they
  hold an error the state stays as it was, otherwise the model is stored. The
  diagnostics that the framework returns for a model are a parameter, \<open>validate\<close>.
  \<open>State_Set\<close> is the statement \<open>resp.Diagnostics.Append(resp.State.Set(ctx, &model)...)\<close>.
\<close>

definition State_Set :: "('m \<Rightarrow> diagnostics) \<Rightarrow> 'm \<Rightarrow> 'm Response \<Rightarrow> 'm Response" where
  "State_Set validate m resp =
     (let diags = validate m;
          resp = (if HasError diags then resp else resp\<lparr>State := Some m\<rparr>)
      in resp\<lparr>Diagnostics := Append (Diagnostics resp) diags\<rparr>)"

datatype 'a outcome = Panic | Return 'a

section \<open>The domain types of the InfluxDB client\<close>

text \<open>
  Go pointers are options (\<open>None\<close> is nil). \<open>time.Time\<close> is kept by its \<open>String()\<close>
  rendering, the only thing the provider reads from it.
\<close>

datatype time = Time (String: string)

record domain_Resource =
  Id :: "string option"
  Name :: "string option"
  Org :: "string option"
  OrgID :: "string option"
  Type :: string

record domain_Permission =
  Action :: string
  Resource :: domain_Resource

record domain_Authorization =
  Description :: "string option"
  Status :: "string option"
  Id :: "string option"
  OrgID :: "string option"
  Permissions :: "domain_Permission list option"
  Token :: "string option"
  UserID :: "string option"

record domain_RetentionRule =
  EverySeconds :: "64 word"
  Type :: "string option"

record domain_Bucket =
  CreatedAt :: "time option"
  Description :: "string option"
  Id :: "string option"
  Name :: string
  OrgID :: "string option"
  RetentionRules :: "domain_RetentionRule list"
  Rp :: "string option"
  Type :: "string option"
  UpdatedAt :: "time option"

record domain_Ready =
  Started :: "time option"
  Status :: "string option"

subsection \<open>The remote client\<close>

text \<open>
  Every call to the remote store is appended to a trace. The client is a black box: its
  answer to a call may depend on the calls made before (the trace at the moment of the
  call). A Go result \<open>(*T, error)\<close> is \<open>Inl\<close> of the error text or \<open>Inr\<close> of the pointer.
\<close>

datatype call =
    Call_NewClientWithOptions string string
  | Call_Ready
  | Call_CreateBucket domain_Bucket
  | Call_FindBucketByID string
  | Call_CreateAuthorization domain_Authorization
  | Call_FindAuthorizationsByOrgID string
  | Call_UpdateAuthorizationStatus domain_Authorization string

type_synonym trace = "call list"

record Client =
  Ready :: "trace \<Rightarrow> string + domain_Ready option"
  ServerURL :: string
  CreateBucket :: "trace \<Rightarrow> domain_Bucket \<Rightarrow> string + domain_Bucket option"
  FindBucketByID :: "trace \<Rightarrow> string \<Rightarrow> string + domain_Bucket option"
  CreateAuthorization ::
    "trace \<Rightarrow> domain_Authorization \<Rightarrow> string + domain_Authorization option"
  FindAuthorizationsByOrgID ::
    "trace \<Rightarrow> string \<Rightarrow> string + domain_Authorization list option"
  UpdateAuthorizationStatus ::
    "trace \<Rightarrow> domain_Authorization \<Rightarrow> string \<Rightarrow> string + domain_Authorization option"

section \<open>The authorization resource\<close>

record ResourceModel =
  ID :: tfstring
  Org :: tfstring
  OrgID :: tfstring
  Type :: tfstring

record PermissionModel =
  Action :: tfstring
  Resource :: "ResourceModel tfset"

record AuthorizationResourceModel =
  ID :: tfstring
  OrgID :: tfstring
  Description :: tfstring
  Status :: tfstring
  Permissions :: "PermissionModel tfset"
  UserID :: tfstring
  UserOrgID :: tfstring
  Token :: tfstring

subsection \<open>readAuthorization\<close>

text \<open>
  The search loop of \<open>readAuthorization\<close>: it dereferences the \<open>Id\<close> pointer of every
  element up to the first match.
\<close>

fun find_authorization ::
  "domain_Authorization list \<Rightarrow> string \<Rightarrow> domain_Authorization option outcome" where
  "find_authorization [] mid = Return None"
| "find_authorization (a # rest) mid =
     (case domain_Authorization.Id a of
        None \<Rightarrow> Panic
      | Some i \<Rightarrow> if i = mid then Return (Some a) else find_authorization rest mid)"

text \<open>The assignments after the search, in the order of the source.\<close>

definition update_model_from ::
  "domain_Authorization \<Rightarrow> AuthorizationResourceModel \<Rightarrow> AuthorizationResourceModel" where
  "update_model_from auth model =
     (let model = (case domain_Authorization.Status auth of
                     None \<Rightarrow> model
                   | Some s \<Rightarrow> model\<lparr>AuthorizationResourceModel.Status := StringValue s\<rparr>);
          model = (case domain_Authorization.UserID auth of
                     None \<Rightarrow> model
                   | Some u \<Rightarrow> model\<lparr>AuthorizationResourceModel.UserID := StringValue u\<rparr>);
          model = (case domain_Authorization.OrgID auth of
                     None \<Rightarrow> model
                   | Some oid \<Rightarrow> model\<lparr>UserOrgID := StringValue oid\<rparr>);
          model = (case domain_Authorization.Token auth of
                     None \<Rightarrow> model
                   | Some t \<Rightarrow> model\<lparr>AuthorizationResourceModel.Token := StringValue t\<rparr>)
      in model)"

text \<open>
  The result is the returned error (\<open>None\<close> is nil) with the model as the call left it,
  and the trace.
\<close>

definition readAuthorization ::
  "Client \<Rightarrow> AuthorizationResourceModel \<Rightarrow> trace
     \<Rightarrow> (string option \<times> AuthorizationResourceModel) outcome \<times> trace" where
  "readAuthorization c model tr =
     (let orgID = ValueString (AuthorizationResourceModel.OrgID model);
          tr' = tr @ [Call_FindAuthorizationsByOrgID orgID]
      in case FindAuthorizationsByOrgID c tr orgID of
           Inl err \<Rightarrow> (Return (Some (''error finding authorizations: '' @ err), model), tr')
         | Inr None \<Rightarrow> (Panic, tr')
         | Inr (Some authorizations) \<Rightarrow>
             (case find_authorization authorizations
                     (ValueString (AuthorizationResourceModel.ID model)) of
                Panic \<Rightarrow> (Panic, tr')
              | Return None \<Rightarrow> (Return (Some ''authorization not found'', model), tr')
              | Return (Some auth) \<Rightarrow> (Return (None, update_model_from auth model), tr')))"

subsection \<open>Read\<close>

definition AuthorizationResource_Read ::
  "(AuthorizationResourceModel \<Rightarrow> diagnostics) \<Rightarrow> Client \<Rightarrow> AuthorizationResourceModel Request
     \<Rightarrow> AuthorizationResourceModel Response \<Rightarrow> trace \<Rightarrow> AuthorizationResourceModel Response outcome \<times> trace" where
  "AuthorizationResource_Read validate c req resp tr =
     (let resp = resp\<lparr>Diagnostics := Append (Diagnostics resp) (GetDiags req)\<rparr>;
          state = Value req
      in if HasError (Diagnostics resp) then (Return resp, tr)
         else
           (case readAuthorization c state tr of
              (Panic, tr') \<Rightarrow> (Panic, tr')
            | (Return (Some err, state), tr') \<Rightarrow>
                (Return (resp\<lparr>Diagnostics :=
                    AddError (Diagnostics resp) ''Error Reading Authorization''
                      (''Could not read authorization ID ''
                         @ ValueString (AuthorizationResourceModel.ID state) @ '': '' @ err)\<rparr>),
                 tr')
            | (Return (None, state), tr') \<Rightarrow> (Return (State_Set validate state resp), tr')))"

subsection \<open>convertPermissionsToDomain\<close>

definition domain_permission_of :: "PermissionModel \<Rightarrow> ResourceModel \<Rightarrow> domain_Permission" where
  "domain_permission_of perm res =
     (let id = ValueString (ResourceModel.ID res);
          orgID = ValueString (ResourceModel.OrgID res);
          org = ValueString (ResourceModel.Org res);
          name = [];
          domainResource =
            \<lparr>domain_Resource.Id = Some id, domain_Resource.Name = Some name,
             domain_Resource.Org = Some org, domain_Resource.OrgID = Some orgID,
             domain_Resource.Type = ValueString (ResourceModel.Type res)\<rparr>
      in \<lparr>domain_Permission.Action = ValueString (PermissionModel.Action perm),
          domain_Permission.Resource = domainResource\<rparr>)"

text \<open>
  The outer loop, with \<open>domainPermissions\<close> as accumulator; the inner loop appends one
  domain permission for each resource and cannot fail.
\<close>

fun permissions_loop ::
  "PermissionModel list \<Rightarrow> domain_Permission list \<Rightarrow> string + domain_Permission list" where
  "permissions_loop [] domainPermissions = Inr domainPermissions"
| "permissions_loop (perm # rest) domainPermissions =
     (case ElementsAs (PermissionModel.Resource perm) of
        (True, resources) \<Rightarrow> Inl ''error converting resources set''
      | (False, resources) \<Rightarrow>
          permissions_loop rest
            (domainPermissions @ map (domain_permission_of perm) resources))"

definition convertPermissionsToDomain ::
  "PermissionModel tfset \<Rightarrow> string + domain_Permission list" where
  "convertPermissionsToDomain permsSet =
     (case ElementsAs permsSet of
        (True, permissions) \<Rightarrow> Inl ''error converting permissions set''
      | (False, permissions) \<Rightarrow> permissions_loop permissions [])"

subsection \<open>The flattening of permissions, as the specification states it\<close>

text \<open>
  Every entry contributes, in order, one domain permission for each resource of its
  resource set, pairing the action of the entry with that resource.
\<close>

definition flattened_permissions :: "PermissionModel list \<Rightarrow> domain_Permission list" where
  "flattened_permissions permissions =
     concat (map (\<lambda>perm.
        map (\<lambda>res.
          \<lparr>domain_Permission.Action = ValueString (PermissionModel.Action perm),
           domain_Permission.Resource =
             \<lparr>domain_Resource.Id = Some (ValueString (ResourceModel.ID res)),
              domain_Resource.Name = Some [],
              domain_Resource.Org = Some (ValueString (ResourceModel.Org res)),
              domain_Resource.OrgID = Some (ValueString (ResourceModel.OrgID res)),
              domain_Resource.Type = ValueString (ResourceModel.Type res)\<rparr>\<rparr>)
          (snd (ElementsAs (PermissionModel.Resource perm)))) permissions)"

subsection \<open>Create\<close>

text \<open>
  The \<open>domain.Authorization\<close> literal that Create sends: description, status,
  organization and permissions; every other field is nil.
\<close>

definition Create_authorization ::
  "string \<Rightarrow> string \<Rightarrow> string \<Rightarrow> domain_Permission list \<Rightarrow> domain_Authorization" where
  "Create_authorization desc status orgID permissions =
     \<lparr>domain_Authorization.Description = Some desc,
      domain_Authorization.Status = Some status,
      domain_Authorization.Id = None,
      domain_Authorization.OrgID = Some orgID,
      domain_Authorization.Permissions = Some permissions,
      domain_Authorization.Token = None,
      domain_Authorization.UserID = None\<rparr>"

definition AuthorizationResource_Create ::
  "(AuthorizationResourceModel \<Rightarrow> diagnostics) \<Rightarrow> Client \<Rightarrow> AuthorizationResourceModel Request
     \<Rightarrow> AuthorizationResourceModel Response \<Rightarrow> trace \<Rightarrow> AuthorizationResourceModel Response outcome \<times> trace" where
  "AuthorizationResource_Create validate c req resp tr =
     (let resp = resp\<lparr>Diagnostics := Append (Diagnostics resp) (GetDiags req)\<rparr>;
          plan = Value req
      in if HasError (Diagnostics resp) then (Return resp, tr)
         else
           (case convertPermissionsToDomain (AuthorizationResourceModel.Permissions plan) of
              Inl err \<Rightarrow>
                (Return (resp\<lparr>Diagnostics :=
                    AddError (Diagnostics resp) ''Error Converting Permissions''
                      (''Could not convert permissions: '' @ err)\<rparr>),
                 tr)
            | Inr permissions \<Rightarrow>
                (let orgID = ValueString (AuthorizationResourceModel.OrgID plan);
                     desc = ValueString (AuthorizationResourceModel.Description plan);
                     status = ValueString (AuthorizationResourceModel.Status plan);
                     authorization = Create_authorization desc status orgID permissions;
                     tr' = tr @ [Call_CreateAuthorization authorization]
                 in case CreateAuthorization c tr authorization of
                      Inl err \<Rightarrow>
                        (Return (resp\<lparr>Diagnostics :=
                            AddError (Diagnostics resp) ''Error Creating Authorization''
                              (''Could not create authorization: '' @ err)\<rparr>),
                         tr')
                    | Inr None \<Rightarrow> (Panic, tr')
                    | Inr (Some result) \<Rightarrow>
                        (case domain_Authorization.Id result of
                           None \<Rightarrow> (Panic, tr')
                         | Some i \<Rightarrow>
                             (let plan = plan\<lparr>AuthorizationResourceModel.ID := StringValue i\<rparr>;
                                  plan = (case domain_Authorization.Token result of
                                            None \<Rightarrow> plan
                                          | Some t \<Rightarrow> plan\<lparr>AuthorizationResourceModel.Token :=
                                                              StringValue t\<rparr>);
                                  plan = (case domain_Authorization.UserID result of
                                            None \<Rightarrow> plan
                                          | Some u \<Rightarrow> plan\<lparr>AuthorizationResourceModel.UserID :=
                                                              StringValue u\<rparr>);
                                  plan = (case domain_Authorization.OrgID result of
                                            None \<Rightarrow> plan
                                          | Some oid \<Rightarrow> plan\<lparr>UserOrgID := StringValue oid\<rparr>)
                              in (Return (State_Set validate plan resp), tr'))))))"

subsection \<open>Update\<close>

text \<open>The literal \<open>domain.Authorization{Id: &id}\<close>: every other field is nil.\<close>

definition Update_authorization :: "string \<Rightarrow> domain_Authorization" where
  "Update_authorization i =
     \<lparr>domain_Authorization.Description = None,
      domain_Authorization.Status = None,
      domain_Authorization.Id = Some i,
      domain_Authorization.OrgID = None,
      domain_Authorization.Permissions = None,
      domain_Authorization.Token = None,
      domain_Authorization.UserID = None\<rparr>"

definition AuthorizationResource_Update ::
  "(AuthorizationResourceModel \<Rightarrow> diagnostics) \<Rightarrow> Client \<Rightarrow> AuthorizationResourceModel Request
     \<Rightarrow> AuthorizationResourceModel Response \<Rightarrow> trace \<Rightarrow> AuthorizationResourceModel Response outcome \<times> trace" where
  "AuthorizationResource_Update validate c req resp tr =
     (let resp = resp\<lparr>Diagnostics := Append (Diagnostics resp) (GetDiags req)\<rparr>;
          plan = Value req
      in if HasError (Diagnostics resp) then (Return resp, tr)
         else
           (let id = ValueString (AuthorizationResourceModel.ID plan);
                authorization = Update_authorization id;
                statusUpdate = ValueString (AuthorizationResourceModel.Status plan);
                tr' = tr @ [Call_UpdateAuthorizationStatus authorization statusUpdate]
            in case UpdateAuthorizationStatus c tr authorization statusUpdate of
                 Inl err \<Rightarrow>
                   (Return (resp\<lparr>Diagnostics :=
                       AddError (Diagnostics resp) ''Error Updating Authorization''
                         (''Could not update authorization status: '' @ err)\<rparr>),
                    tr')
               | Inr updated \<Rightarrow>
                   (case readAuthorization c plan tr' of
                      (Panic, tr'') \<Rightarrow> (Panic, tr'')
                    | (Return (Some err, plan), tr'') \<Rightarrow>
                        (Return (resp\<lparr>Diagnostics :=
                            AddError (Diagnostics resp)
                              ''Error Reading Authorization After Update''
                              (''Could not read authorization after update: '' @ err)\<rparr>),
                         tr'')
                    | (Return (None, plan), tr'') \<Rightarrow>
                        (Return (State_Set validate plan resp), tr''))))"

subsection \<open>Schema\<close>

text \<open>
  The attributes of the schema with their flags, default and plan modifiers (the
  descriptions are left out). A string attribute lists required, optional, computed,
  sensitive, default and plan modifiers; a nested set attribute lists required, plan
  modifiers and the attributes of the nested object.
\<close>

datatype plan_modifier = UseStateForUnknown | RequiresReplace

datatype Attribute =
    StringAttribute (Required: bool) (Optional: bool) (Computed: bool) (Sensitive: bool)
      (Default: "string option") (PlanModifiers: "plan_modifier list")
  | SetNestedAttribute (Required: bool) (PlanModifiers: "plan_modifier list")
      (NestedObject: "(string \<times> Attribute) list")

definition AuthorizationResource_Schema :: "(string \<times> Attribute) list" where
  "AuthorizationResource_Schema =
     [(''id'', StringAttribute False False True False None [UseStateForUnknown]),
      (''org_id'', StringAttribute True False False False None [RequiresReplace]),
      (''description'', StringAttribute False True True False (Some []) []),
      (''status'', StringAttribute False True True False (Some ''active'') []),
      (''permissions'', SetNestedAttribute True []
         [(''action'', StringAttribute True False False False None []),
          (''resource'', SetNestedAttribute True []
             [(''id'', StringAttribute True False False False None []),
              (''org'', StringAttribute False True True False (Some []) []),
              (''org_id'', StringAttribute True False False False None []),
              (''type'', StringAttribute True False False False None [])])]),
      (''user_id'', StringAttribute False False True False None [UseStateForUnknown]),
      (''user_org_id'', StringAttribute False False True False None [UseStateForUnknown]),
      (''token'', StringAttribute False False True True None [UseStateForUnknown])]"

text \<open>
  The framework's plan-time rule: an attribute requires replacement when its plan
  modifiers include \<open>RequiresReplace\<close>, and a change is a replacement as soon as one of
  the changed attributes requires it; otherwise it is an update in place.
\<close>

definition RequiresReplacement :: "(string \<times> Attribute) list \<Rightarrow> string \<Rightarrow> bool" where
  "RequiresReplacement schema name =
     (case map_of schema name of
        None \<Rightarrow> False
      | Some a \<Rightarrow> RequiresReplace \<in> set (PlanModifiers a))"

datatype plan_action = UpdateInPlace | Replace

definition classify_change :: "(string \<times> Attribute) list \<Rightarrow> string list \<Rightarrow> plan_action" where
  "classify_change schema changed =
     (if list_ex (RequiresReplacement schema) changed then Replace else UpdateInPlace)"

section \<open>The bucket resource\<close>

record RetentionRuleModel =
  EverySeconds :: tfint64
  Type :: tfstring

record BucketResourceModel =
  ID :: tfstring
  Name :: tfstring
  Description :: tfstring
  OrgID :: tfstring
  RetentionRules :: "RetentionRuleModel tfset"
  RP :: tfstring
  CreatedAt :: tfstring
  UpdatedAt :: tfstring
  Type :: tfstring

subsection \<open>Building framework objects and sets\<close>

text \<open>
  \<open>types.ObjectValue(attributeTypes, attributes)\<close> reports an error when an expected
  attribute is missing or has another type, or when an attribute is not expected;
  \<open>types.SetValue(elementType, elements)\<close> when an element has another type. Both are
  given the types of the values they receive.
\<close>

datatype attr_type = StringType | Int64Type | ObjectType "(string \<times> attr_type) list"

definition ObjectValue_HasError ::
  "(string \<times> attr_type) list \<Rightarrow> (string \<times> attr_type) list \<Rightarrow> bool" where
  "ObjectValue_HasError attributeTypes attributes =
     (\<not> (list_all (\<lambda>(k, t). map_of attributes k = Some t) attributeTypes
         \<and> list_all (\<lambda>(k, t). map_of attributeTypes k \<noteq> None) attributes))"

definition SetValue_HasError :: "attr_type \<Rightarrow> attr_type list \<Rightarrow> bool" where
  "SetValue_HasError elementType elements = (\<not> list_all (\<lambda>t. t = elementType) elements)"

subsection \<open>convertRetentionRulesToDomain\<close>

definition convertRetentionRulesToDomain ::
  "RetentionRuleModel tfset \<Rightarrow> string + domain_RetentionRule list" where
  "convertRetentionRulesToDomain rulesSet =
     (case ElementsAs rulesSet of
        (True, rules) \<Rightarrow> Inl ''error converting retention rules set''
      | (False, rules) \<Rightarrow>
          Inr (map (\<lambda>rule.
                 \<lparr>domain_RetentionRule.EverySeconds =
                    ValueInt64 (RetentionRuleModel.EverySeconds rule),
                  domain_RetentionRule.Type =
                    Some (ValueString (RetentionRuleModel.Type rule))\<rparr>) rules))"

subsection \<open>convertRetentionRulesToTerraform\<close>

definition retentionRuleType :: "(string \<times> attr_type) list" where
  "retentionRuleType = [(''every_seconds'', Int64Type), (''type'', StringType)]"

text \<open>The loop over \<open>domainRules\<close>, with \<open>elements\<close> as accumulator.\<close>

fun retention_rules_loop ::
  "domain_RetentionRule list \<Rightarrow> RetentionRuleModel list \<Rightarrow> string + RetentionRuleModel list" where
  "retention_rules_loop [] elements = Inr elements"
| "retention_rules_loop (rule # rest) elements =
     (let ruleTypeValue = (case domain_RetentionRule.Type rule of
                             None \<Rightarrow> ''expire''
                           | Some t \<Rightarrow> t)
      in if ObjectValue_HasError retentionRuleType
              [(''every_seconds'', Int64Type), (''type'', StringType)]
         then Inl ''error creating retention rule object''
         else retention_rules_loop rest
                (elements @
                   [\<lparr>RetentionRuleModel.EverySeconds =
                       Int64Value (domain_RetentionRule.EverySeconds rule),
                     RetentionRuleModel.Type = StringValue ruleTypeValue\<rparr>]))"

text \<open>The result is the set with the returned error (\<open>None\<close> is nil).\<close>

definition convertRetentionRulesToTerraform ::
  "domain_RetentionRule list \<Rightarrow> RetentionRuleModel tfset \<times> string option" where
  "convertRetentionRulesToTerraform domainRules =
     (case retention_rules_loop domainRules [] of
        Inl err \<Rightarrow> (SetNull, Some err)
      | Inr elements \<Rightarrow>
          if SetValue_HasError (ObjectType retentionRuleType)
               (map (\<lambda>e. ObjectType retentionRuleType) elements)
          then (SetNull, Some ''error creating retention rules set'')
          else (SetValue elements, None))"

subsection \<open>readBucket\<close>

text \<open>The assignments of \<open>readBucket\<close> before the retention rules, in the order of the source.\<close>

definition update_bucket_model ::
  "domain_Bucket \<Rightarrow> BucketResourceModel \<Rightarrow> BucketResourceModel" where
  "update_bucket_model result model =
     (let model = model\<lparr>BucketResourceModel.Name := StringValue (domain_Bucket.Name result)\<rparr>;
          model = (case domain_Bucket.Description result of
                     Some d \<Rightarrow> model\<lparr>BucketResourceModel.Description := StringValue d\<rparr>
                   | None \<Rightarrow> model\<lparr>BucketResourceModel.Description := StringValue []\<rparr>);
          model = (case domain_Bucket.OrgID result of
                     Some oid \<Rightarrow> model\<lparr>BucketResourceModel.OrgID := StringValue oid\<rparr>
                   | None \<Rightarrow> model);
          model = (case domain_Bucket.Rp result of
                     Some rp \<Rightarrow> model\<lparr>RP := StringValue rp\<rparr>
                   | None \<Rightarrow> model\<lparr>RP := StringValue []\<rparr>);
          model = (case domain_Bucket.CreatedAt result of
                     Some t \<Rightarrow> model\<lparr>BucketResourceModel.CreatedAt := StringValue (String t)\<rparr>
                   | None \<Rightarrow> model);
          model = (case domain_Bucket.UpdatedAt result of
                     Some t \<Rightarrow> model\<lparr>BucketResourceModel.UpdatedAt := StringValue (String t)\<rparr>
                   | None \<Rightarrow> model);
          model = (case domain_Bucket.Type result of
                     Some ty \<Rightarrow> model\<lparr>BucketResourceModel.Type := StringValue ty\<rparr>
                   | None \<Rightarrow> model)
      in model)"

definition readBucket ::
  "Client \<Rightarrow> BucketResourceModel \<Rightarrow> trace
     \<Rightarrow> (string option \<times> BucketResourceModel) outcome \<times> trace" where
  "readBucket c model tr =
     (let id = ValueString (BucketResourceModel.ID model);
          tr' = tr @ [Call_FindBucketByID id]
      in case FindBucketByID c tr id of
           Inl err \<Rightarrow> (Return (Some (''error finding bucket: '' @ err), model), tr')
         | Inr None \<Rightarrow> (Panic, tr')
         | Inr (Some result) \<Rightarrow>
             (let model = update_bucket_model result model
              in case convertRetentionRulesToTerraform (domain_Bucket.RetentionRules result) of
                   (retentionRulesSet, Some err) \<Rightarrow>
                     (Return (Some (''error converting retention rules: '' @ err), model), tr')
                 | (retentionRulesSet, None) \<Rightarrow>
                     (Return (None,
                        model\<lparr>BucketResourceModel.RetentionRules := retentionRulesSet\<rparr>),
                      tr')))"

subsection \<open>Create and Read\<close>

text \<open>
  The \<open>domain.Bucket\<close> literal that Create sends: description, name, organization,
  retention rules and retention policy; every other field is nil.
\<close>

definition Create_newBucket ::
  "string \<Rightarrow> string \<Rightarrow> string \<Rightarrow> domain_RetentionRule list \<Rightarrow> string \<Rightarrow> domain_Bucket" where
  "Create_newBucket desc name orgID retentionRules rp =
     \<lparr>domain_Bucket.CreatedAt = None,
      domain_Bucket.Description = Some desc,
      domain_Bucket.Id = None,
      domain_Bucket.Name = name,
      domain_Bucket.OrgID = Some orgID,
      domain_Bucket.RetentionRules = retentionRules,
      domain_Bucket.Rp = Some rp,
      domain_Bucket.Type = None,
      domain_Bucket.UpdatedAt = None\<rparr>"

definition BucketResource_Create ::
  "(BucketResourceModel \<Rightarrow> diagnostics) \<Rightarrow> Client \<Rightarrow> BucketResourceModel Request
     \<Rightarrow> BucketResourceModel Response \<Rightarrow> trace \<Rightarrow> BucketResourceModel Response outcome \<times> trace" where
  "BucketResource_Create validate c req resp tr =
     (let resp = resp\<lparr>Diagnostics := Append (Diagnostics resp) (GetDiags req)\<rparr>;
          plan = Value req
      in if HasError (Diagnostics resp) then (Return resp, tr)
         else
           (case convertRetentionRulesToDomain (BucketResourceModel.RetentionRules plan) of
              Inl err \<Rightarrow>
                (Return (resp\<lparr>Diagnostics :=
                    AddError (Diagnostics resp) ''Error Converting Retention Rules''
                      (''Could not convert retention rules: '' @ err)\<rparr>),
                 tr)
            | Inr retentionRules \<Rightarrow>
                (let desc = ValueString (BucketResourceModel.Description plan);
                     orgID = ValueString (BucketResourceModel.OrgID plan);
                     rp = ValueString (RP plan);
                     newBucket =
                       Create_newBucket desc (ValueString (BucketResourceModel.Name plan))
                         orgID retentionRules rp;
                     tr' = tr @ [Call_CreateBucket newBucket]
                 in case CreateBucket c tr newBucket of
                      Inl err \<Rightarrow>
                        (Return (resp\<lparr>Diagnostics :=
                            AddError (Diagnostics resp) ''Error Creating Bucket''
                              (''Could not create bucket, unexpected error: '' @ err)\<rparr>),
                         tr')
                    | Inr None \<Rightarrow> (Panic, tr')
                    | Inr (Some result) \<Rightarrow>
                        (case domain_Bucket.Id result of
                           None \<Rightarrow> (Panic, tr')
                         | Some i \<Rightarrow>
                             (let plan = plan\<lparr>BucketResourceModel.ID := StringValue i\<rparr>
                              in case readBucket c plan tr' of
                                   (Panic, tr'') \<Rightarrow> (Panic, tr'')
                                 | (Return (Some err, plan), tr'') \<Rightarrow>
                                     (Return (resp\<lparr>Diagnostics :=
                                         AddError (Diagnostics resp)
                                           ''Error Reading Bucket After Creation''
                                           (''Could not read bucket after creation: '' @ err)\<rparr>),
                                      tr'')
                                 | (Return (None, plan), tr'') \<Rightarrow>
                                     (Return (State_Set validate plan resp), tr''))))))"

definition BucketResource_Read ::
  "(BucketResourceModel \<Rightarrow> diagnostics) \<Rightarrow> Client \<Rightarrow> BucketResourceModel Request
     \<Rightarrow> BucketResourceModel Response \<Rightarrow> trace \<Rightarrow> BucketResourceModel Response outcome \<times> trace" where
  "BucketResource_Read validate c req resp tr =
     (let resp = resp\<lparr>Diagnostics := Append (Diagnostics resp) (GetDiags req)\<rparr>;
          state = Value req
      in if HasError (Diagnostics resp) then (Return resp, tr)
         else
           (case readBucket c state tr of
              (Panic, tr') \<Rightarrow> (Panic, tr')
            | (Return (Some err, state), tr') \<Rightarrow>
                (Return (resp\<lparr>Diagnostics :=
                    AddError (Diagnostics resp) ''Error Reading Bucket''
                      (''Could not read bucket ID ''
                         @ ValueString (BucketResourceModel.ID state) @ '': '' @ err)\<rparr>),
                 tr')
            | (Return (None, state), tr') \<Rightarrow> (Return (State_Set validate state resp), tr')))"

section \<open>The readiness data source\<close>

record ReadyDataSourceModel =
  ID :: tfstring
  URL :: tfstring
  Ready :: tfbool
  Status :: tfstring
  Started :: tfstring

text \<open>
  \<open>var state ReadyDataSourceModel\<close> is the zero value: every field null. The logging
  around \<open>ready.Started.Before(time.Now())\<close> has no effect on the result.
\<close>

definition ReadyDataSource_Read ::
  "(ReadyDataSourceModel \<Rightarrow> diagnostics) \<Rightarrow> Client \<Rightarrow> ReadyDataSourceModel Response
     \<Rightarrow> trace \<Rightarrow> ReadyDataSourceModel Response outcome \<times> trace" where
  "ReadyDataSource_Read validate c resp tr =
     (let state = \<lparr>ReadyDataSourceModel.ID = StringNull, URL = StringNull,
                   ReadyDataSourceModel.Ready = BoolNull,
                   ReadyDataSourceModel.Status = StringNull,
                   ReadyDataSourceModel.Started = StringNull\<rparr>;
          tr' = tr @ [Call_Ready]
      in case Client.Ready c tr of
           Inl err \<Rightarrow>
             (Return (resp\<lparr>Diagnostics :=
                 AddError (Diagnostics resp) ''Error Checking Server Status''
                   (''Could not check if server is ready: '' @ err)\<rparr>),
              tr')
         | Inr None \<Rightarrow> (Panic, tr')
         | Inr (Some ready) \<Rightarrow>
             (let serverURL = ServerURL c;
                  state = state\<lparr>ReadyDataSourceModel.ID := StringValue serverURL\<rparr>;
                  state = state\<lparr>URL := StringValue serverURL\<rparr>;
                  state = state\<lparr>ReadyDataSourceModel.Ready := BoolValue True\<rparr>;
                  state = (case domain_Ready.Status ready of
                             Some s \<Rightarrow> state\<lparr>ReadyDataSourceModel.Status := StringValue s\<rparr>
                           | None \<Rightarrow> state\<lparr>ReadyDataSourceModel.Status :=
                                              StringValue ''unknown''\<rparr>);
                  state = (case domain_Ready.Started ready of
                             Some t \<Rightarrow> state\<lparr>ReadyDataSourceModel.Started :=
                                               StringValue (String t)\<rparr>
                           | None \<Rightarrow> state\<lparr>ReadyDataSourceModel.Started := StringValue []\<rparr>)
              in (Return (State_Set validate state resp), tr')))"

section \<open>The provider\<close>

record influxdbProviderModel =
  URL :: tfstring
  Token :: tfstring

text \<open>
  The process environment (\<open>os.Getenv\<close> yields the empty string for an unset variable)
  and the constructor of the client library.
\<close>

record Env =
  Getenv :: "string \<Rightarrow> string"
  NewClientWithOptions :: "string \<Rightarrow> string \<Rightarrow> Client"

record ConfigureResponse =
  Diagnostics :: diagnostics
  DataSourceData :: "Client option"
  ResourceData :: "Client option"

text \<open>The url and the token as \<open>Configure\<close> resolves them.\<close>

definition Configure_url :: "Env \<Rightarrow> influxdbProviderModel \<Rightarrow> string" where
  "Configure_url env config =
     (let url = Getenv env ''INFLUXDB_V2_URL'';
          url = (if \<not> IsNull (influxdbProviderModel.URL config)
                 then ValueString (influxdbProviderModel.URL config) else url);
          url = (if url = [] then ''http://localhost:8086'' else url)
      in url)"

definition Configure_token :: "Env \<Rightarrow> influxdbProviderModel \<Rightarrow> string" where
  "Configure_token env config =
     (let token = Getenv env ''INFLUXDB_V2_TOKEN'';
          token = (if \<not> IsNull (influxdbProviderModel.Token config)
                   then ValueString (influxdbProviderModel.Token config) else token)
      in token)"

definition influxdbProvider_Configure ::
  "Env \<Rightarrow> influxdbProviderModel Request \<Rightarrow> ConfigureResponse \<Rightarrow> trace
     \<Rightarrow> ConfigureResponse \<times> trace" where
  "influxdbProvider_Configure env req resp tr =
     (let resp = resp\<lparr>ConfigureResponse.Diagnostics :=
                   Append (ConfigureResponse.Diagnostics resp) (GetDiags req)\<rparr>;
          config = Value req
      in if HasError (ConfigureResponse.Diagnostics resp) then (resp, tr)
         else
           (let url = Configure_url env config;
                token = Configure_token env config;
                resp = (if url = []
                        then resp\<lparr>ConfigureResponse.Diagnostics :=
                          AddError (ConfigureResponse.Diagnostics resp)
                            ''Missing InfluxDB URL Configuration''
                            (''While configuring the provider, the InfluxDB URL was not found in ''
                               @ ''the INFLUXDB_V2_URL environment variable or provider ''
                               @ ''configuration block url attribute.'')\<rparr>
                        else resp);
                resp = (if token = []
                        then resp\<lparr>ConfigureResponse.Diagnostics :=
                          AddError (ConfigureResponse.Diagnostics resp)
                            ''Missing InfluxDB Token Configuration''
                            (''While configuring the provider, the InfluxDB token was not found in ''
                               @ ''the INFLUXDB_V2_TOKEN environment variable or provider ''
                               @ ''configuration block token attribute.'')\<rparr>
                        else resp)
            in if HasError (ConfigureResponse.Diagnostics resp) then (resp, tr)
               else
                 (let client = NewClientWithOptions env url token;
                      tr' = tr @ [Call_NewClientWithOptions url token];
                      tr'' = tr' @ [Call_Ready];
                      not_ready = resp\<lparr>ConfigureResponse.Diagnostics :=
                        AddError (ConfigureResponse.Diagnostics resp)
                          ''InfluxDB Server Not Ready''
                          ''The InfluxDB server is not ready to accept connections.''\<rparr>
                  in case Client.Ready client tr' of
                       Inl err \<Rightarrow>
                         (resp\<lparr>ConfigureResponse.Diagnostics :=
                            AddError (ConfigureResponse.Diagnostics resp)
                              ''Unable to Connect to InfluxDB Server''
                              (''An unexpected error occurred when connecting to the InfluxDB server. ''
                                 @ ''If the error is not clear, please contact the provider developers.''
                                 @ [CHR 0x0A, CHR 0x0A]
                                 @ ''InfluxDB Client Error: '' @ err)\<rparr>,
                          tr'')
                     | Inr None \<Rightarrow> (not_ready, tr'')
                     | Inr (Some ready) \<Rightarrow>
                         (case domain_Ready.Status ready of
                            None \<Rightarrow> (not_ready, tr'')
                          | Some status \<Rightarrow>
                              (resp\<lparr>DataSourceData := Some client,
                                    ResourceData := Some client\<rparr>,
                               tr'')))))"

section \<open>Sample clients, models and requests\<close>

text \<open>Concrete values on which the properties below are run.\<close>

definition offline_client :: Client where
  "offline_client =
     \<lparr>Client.Ready = (\<lambda>tr. Inl ''connection refused''),
      ServerURL = ''http://localhost:8086'',
      CreateBucket = (\<lambda>tr b. Inl ''connection refused''),
      FindBucketByID = (\<lambda>tr i. Inl ''connection refused''),
      CreateAuthorization = (\<lambda>tr a. Inl ''connection refused''),
      FindAuthorizationsByOrgID = (\<lambda>tr org. Inl ''connection refused''),
      UpdateAuthorizationStatus = (\<lambda>tr a s. Inl ''connection refused'')\<rparr>"

definition empty_Authorization :: domain_Authorization where
  "empty_Authorization =
     \<lparr>domain_Authorization.Description = None, domain_Authorization.Status = None,
      domain_Authorization.Id = None, domain_Authorization.OrgID = None,
      domain_Authorization.Permissions = None, domain_Authorization.Token = None,
      domain_Authorization.UserID = None\<rparr>"

text \<open>A client whose organization lists the given authorizations and accepts status updates.\<close>

definition listing_client :: "domain_Authorization list \<Rightarrow> Client" where
  "listing_client auths =
     offline_client\<lparr>FindAuthorizationsByOrgID := (\<lambda>tr org. Inr (Some auths)),
                    UpdateAuthorizationStatus := (\<lambda>tr a s. Inr (Some a))\<rparr>"

definition bucket_resource :: ResourceModel where
  "bucket_resource =
     \<lparr>ResourceModel.ID = StringValue ''b1'', ResourceModel.Org = StringValue [],
      ResourceModel.OrgID = StringValue ''org1'',
      ResourceModel.Type = StringValue ''buckets''\<rparr>"

definition stored_model :: AuthorizationResourceModel where
  "stored_model =
     \<lparr>AuthorizationResourceModel.ID = StringValue ''a1'',
      AuthorizationResourceModel.OrgID = StringValue ''org1'',
      AuthorizationResourceModel.Description = StringValue ''ci token'',
      AuthorizationResourceModel.Status = StringValue ''active'',
      AuthorizationResourceModel.Permissions = SetValue
        [\<lparr>PermissionModel.Action = StringValue ''read'',
          PermissionModel.Resource = SetValue [bucket_resource]\<rparr>],
      AuthorizationResourceModel.UserID = StringValue ''u1'',
      UserOrgID = StringValue ''org1'',
      AuthorizationResourceModel.Token = StringValue ''secret''\<rparr>"

definition sample_bucket :: domain_Bucket where
  "sample_bucket =
     \<lparr>domain_Bucket.CreatedAt = Some (Time ''2024-05-01 10:00:00 +0000 UTC''),
      domain_Bucket.Description = None,
      domain_Bucket.Id = Some ''b1'',
      domain_Bucket.Name = ''temp'',
      domain_Bucket.OrgID = Some ''org1'',
      domain_Bucket.RetentionRules =
        [\<lparr>domain_RetentionRule.EverySeconds = 2592000, domain_RetentionRule.Type = None\<rparr>],
      domain_Bucket.Rp = None,
      domain_Bucket.Type = Some ''user'',
      domain_Bucket.UpdatedAt = Some (Time ''2024-05-01 10:00:00 +0000 UTC'')\<rparr>"

text \<open>A client whose store creates and finds \<open>sample_bucket\<close>.\<close>

definition bucket_client :: Client where
  "bucket_client =
     offline_client\<lparr>CreateBucket := (\<lambda>tr b. Inr (Some sample_bucket)),
                    FindBucketByID := (\<lambda>tr i. Inr (Some sample_bucket))\<rparr>"

definition bucket_plan :: BucketResourceModel where
  "bucket_plan =
     \<lparr>BucketResourceModel.ID = StringUnknown,
      BucketResourceModel.Name = StringValue ''temp'',
      BucketResourceModel.Description = StringValue [],
      BucketResourceModel.OrgID = StringValue ''org1'',
      BucketResourceModel.RetentionRules = SetValue
        [\<lparr>RetentionRuleModel.EverySeconds = Int64Value 2592000,
          RetentionRuleModel.Type = StringValue ''expire''\<rparr>],
      BucketResourceModel.RP = StringValue [],
      BucketResourceModel.CreatedAt = StringUnknown,
      BucketResourceModel.UpdatedAt = StringUnknown,
      BucketResourceModel.Type = StringUnknown\<rparr>"

text \<open>The model that reading \<open>sample_bucket\<close> yields.\<close>

definition bucket_state :: BucketResourceModel where
  "bucket_state =
     \<lparr>BucketResourceModel.ID = StringValue ''b1'',
      BucketResourceModel.Name = StringValue ''temp'',
      BucketResourceModel.Description = StringValue [],
      BucketResourceModel.OrgID = StringValue ''org1'',
      BucketResourceModel.RetentionRules = SetValue
        [\<lparr>RetentionRuleModel.EverySeconds = Int64Value 2592000,
          RetentionRuleModel.Type = StringValue ''expire''\<rparr>],
      BucketResourceModel.RP = StringValue [],
      BucketResourceModel.CreatedAt = StringValue ''2024-05-01 10:00:00 +0000 UTC'',
      BucketResourceModel.UpdatedAt = StringValue ''2024-05-01 10:00:00 +0000 UTC'',
      BucketResourceModel.Type = StringValue ''user''\<rparr>"

text \<open>
  An environment that sets \<open>INFLUXDB_V2_URL\<close> and no token, with a server that is
  ready; and a provider configuration that sets neither attribute.
\<close>

definition sample_env :: Env where
  "sample_env =
     \<lparr>Getenv = (\<lambda>name. if name = ''INFLUXDB_V2_URL'' then ''http://influx.example:8086''
                         else []),
      NewClientWithOptions = (\<lambda>url token.
        offline_client\<lparr>ServerURL := url,
          Client.Ready := (\<lambda>tr. Inr (Some \<lparr>domain_Ready.Started = None,
                                             domain_Ready.Status = Some ''ready''\<rparr>))\<rparr>)\<rparr>"

definition null_config :: influxdbProviderModel where
  "null_config = \<lparr>influxdbProviderModel.URL = StringNull,
                  influxdbProviderModel.Token = StringNull\<rparr>"

definition empty_ConfigureResponse :: ConfigureResponse where
  "empty_ConfigureResponse =
     \<lparr>ConfigureResponse.Diagnostics = [], DataSourceData = None, ResourceData = None\<rparr>"

text \<open>
  A client whose store issues the id \<open>a1\<close>, a token and a user for every authorization
  it is asked to create.
\<close>

definition issuing_client :: Client where
  "issuing_client =
     offline_client\<lparr>CreateAuthorization := (\<lambda>tr a.
        Inr (Some (a\<lparr>domain_Authorization.Id := Some ''a1'',
                      domain_Authorization.Token := Some ''secret'',
                      domain_Authorization.UserID := Some ''u1''\<rparr>)))\<rparr>"

text \<open>
  Permissions with three entries: read on two resources, write on no resource, and
  delete on one resource.
\<close>

definition three_entries :: "PermissionModel list" where
  "three_entries =
     [\<lparr>PermissionModel.Action = StringValue ''read'',
       PermissionModel.Resource = SetValue
         [bucket_resource, bucket_resource\<lparr>ResourceModel.ID := StringValue ''b2''\<rparr>]\<rparr>,
      \<lparr>PermissionModel.Action = StringValue ''write'',
       PermissionModel.Resource = SetValue []\<rparr>,
      \<lparr>PermissionModel.Action = StringValue ''delete'',
       PermissionModel.Resource = SetValue [bucket_resource]\<rparr>]"

definition bucket_domain_resource :: "string \<Rightarrow> domain_Resource" where
  "bucket_domain_resource i =
     \<lparr>domain_Resource.Id = Some i, domain_Resource.Name = Some [],
      domain_Resource.Org = Some [], domain_Resource.OrgID = Some ''org1'',
      domain_Resource.Type = ''buckets''\<rparr>"

text \<open>
  A state whose schema accepts every model, and the validation of the bucket schema that
  answers retention rules with equal elements as the framework's set type does.
\<close>

definition accept :: "'m \<Rightarrow> diagnostics" where
  "accept m = []"

definition distinct_rules :: "BucketResourceModel \<Rightarrow> diagnostics" where
  "distinct_rules m =
     (if distinct (snd (ElementsAs (BucketResourceModel.RetentionRules m))) then []
      else [\<lparr>Severity = SeverityError, Summary = ''Duplicate Set Element'',
             Detail = ''This attribute contains duplicate values''\<rparr>])"

text \<open>
  A client whose store holds a bucket with two retention rules that differ only in the
  type pointer, nil in the second.
\<close>

definition twin_rules_bucket :: domain_Bucket where
  "twin_rules_bucket =
     sample_bucket\<lparr>domain_Bucket.RetentionRules :=
       [\<lparr>domain_RetentionRule.EverySeconds = 3600,
         domain_RetentionRule.Type = Some ''expire''\<rparr>,
        \<lparr>domain_RetentionRule.EverySeconds = 3600, domain_RetentionRule.Type = None\<rparr>]\<rparr>"

definition twin_rules_client :: Client where
  "twin_rules_client =
     offline_client\<lparr>CreateBucket := (\<lambda>tr b. Inr (Some twin_rules_bucket)),
                    FindBucketByID := (\<lambda>tr i. Inr (Some twin_rules_bucket))\<rparr>"

section \<open>Properties\<close>

subsection \<open>Diagnostics and state\<close>

lemma HasError_append: "HasError (xs @ ys) = (HasError xs \<or> HasError ys)"
  by (induction xs) auto

lemma HasError_member: "d \<in> set ds \<Longrightarrow> Severity d = SeverityError \<Longrightarrow> HasError ds"
  by (induction ds) auto

lemma HasError_AddError: "HasError (AddError ds s d)"
  by (auto simp: AddError_def HasError_append intro: HasError_member)

lemma AddError_new:
  "\<not> HasError ds \<Longrightarrow>
   AddError ds s d = ds @ [\<lparr>Severity = SeverityError, Summary = s, Detail = d\<rparr>]"
  by (auto simp: AddError_def dest: HasError_member)

lemma State_Set_cases:
  "State_Set validate m resp =
     \<lparr>Response.Diagnostics = Append (Response.Diagnostics resp) (validate m),
      State = (if HasError (validate m) then State resp else Some m)\<rparr>"
  by (cases resp) (simp add: State_Set_def Let_def)

lemma find_authorization_absent:
  "\<forall>a\<in>set auths. domain_Authorization.Id a \<noteq> None \<Longrightarrow>
   \<forall>a\<in>set auths. domain_Authorization.Id a \<noteq> Some mid \<Longrightarrow>
   find_authorization auths mid = Return None"
  by (induction auths) (auto split: option.splits)

lemma find_authorization_no_match:
  "\<forall>a\<in>set auths. domain_Authorization.Id a \<noteq> Some mid \<Longrightarrow>
   find_authorization auths mid \<noteq> Return (Some auth)"
  by (induction auths) (auto split: option.splits)

subsection \<open>Authorization: reading\<close>

text \<open>
  C1, as the code has it. When every authorization of the organization's list carries an
  id and none of them has the model's id, \<open>readAuthorization\<close> returns the error
  \<open>authorization not found\<close> and Read reports it as an error diagnostic, leaving the
  state of the response as it was. Whether or not the listed authorizations carry ids,
  a Read that returns for such a list has left the state as it was and holds an error.
\<close>

theorem authorization_read_not_found:
  assumes "\<not> HasError (Append (Response.Diagnostics resp) (GetDiags req))"
    and "FindAuthorizationsByOrgID c tr
           (ValueString (AuthorizationResourceModel.OrgID (Value req))) = Inr (Some auths)"
    and "\<forall>a\<in>set auths. domain_Authorization.Id a
           \<noteq> Some (ValueString (AuthorizationResourceModel.ID (Value req)))"
  shows "((\<forall>a\<in>set auths. domain_Authorization.Id a \<noteq> None) \<longrightarrow>
           readAuthorization c (Value req) tr =
             (Return (Some ''authorization not found'', Value req),
              tr @ [Call_FindAuthorizationsByOrgID
                      (ValueString (AuthorizationResourceModel.OrgID (Value req)))])
           \<and> AuthorizationResource_Read validate c req resp tr =
             (Return \<lparr>Response.Diagnostics =
                  AddError (Append (Response.Diagnostics resp) (GetDiags req))
                    ''Error Reading Authorization''
                    (''Could not read authorization ID ''
                       @ ValueString (AuthorizationResourceModel.ID (Value req))
                       @ '': authorization not found''),
                State = State resp\<rparr>,
              tr @ [Call_FindAuthorizationsByOrgID
                      (ValueString (AuthorizationResourceModel.OrgID (Value req)))]))
       \<and> (\<forall>r. fst (AuthorizationResource_Read validate c req resp tr) = Return r \<longrightarrow>
             State r = State resp \<and> HasError (Response.Diagnostics r))"
proof (intro conjI impI allI)
  assume ids: "\<forall>a\<in>set auths. domain_Authorization.Id a \<noteq> None"
  have f: "find_authorization auths (ValueString (AuthorizationResourceModel.ID (Value req)))
             = Return None"
    using ids assms(3) by (rule find_authorization_absent)
  show r: "readAuthorization c (Value req) tr =
           (Return (Some ''authorization not found'', Value req),
            tr @ [Call_FindAuthorizationsByOrgID
                    (ValueString (AuthorizationResourceModel.OrgID (Value req)))])"
    using assms(2) f by (simp add: readAuthorization_def Let_def)
  show "AuthorizationResource_Read validate c req resp tr =
             (Return \<lparr>Response.Diagnostics =
                  AddError (Append (Response.Diagnostics resp) (GetDiags req))
                    ''Error Reading Authorization''
                    (''Could not read authorization ID ''
                       @ ValueString (AuthorizationResourceModel.ID (Value req))
                       @ '': authorization not found''),
                State = State resp\<rparr>,
              tr @ [Call_FindAuthorizationsByOrgID
                      (ValueString (AuthorizationResourceModel.OrgID (Value req)))])"
    using assms(1) r by (simp add: AuthorizationResource_Read_def Let_def)
next
  fix r
  assume ret: "fst (AuthorizationResource_Read validate c req resp tr) = Return r"
  have nomatch: "find_authorization auths
                   (ValueString (AuthorizationResourceModel.ID (Value req))) \<noteq> Return (Some auth)"
    for auth
    using assms(3) by (rule find_authorization_no_match)
  show "State r = State resp"
    using assms(1,2) ret nomatch
    by (auto simp: AuthorizationResource_Read_def readAuthorization_def Let_def
          split: outcome.splits option.splits)
  show "HasError (Response.Diagnostics r)"
    using assms(1,2) ret nomatch
    by (auto simp: AuthorizationResource_Read_def readAuthorization_def Let_def
          HasError_AddError split: outcome.splits option.splits)
qed

theorem authorization_read_not_found_witness:
  "AuthorizationResource_Read accept
     (listing_client [empty_Authorization\<lparr>domain_Authorization.Id := Some ''a2''\<rparr>])
     \<lparr>Value = stored_model, GetDiags = []\<rparr>
     \<lparr>Response.Diagnostics = [], State = Some stored_model\<rparr> []
   = (Return \<lparr>Response.Diagnostics =
          [\<lparr>Severity = SeverityError, Summary = ''Error Reading Authorization'',
            Detail = ''Could not read authorization ID a1: authorization not found''\<rparr>],
        State = Some stored_model\<rparr>,
      [Call_FindAuthorizationsByOrgID ''org1''])"
proof -
  let ?auths = "[empty_Authorization\<lparr>domain_Authorization.Id := Some ''a2''\<rparr>]"
  let ?req = "\<lparr>Value = stored_model, GetDiags = []\<rparr>"
  let ?resp = "\<lparr>Response.Diagnostics = [], State = Some stored_model\<rparr>"
  have h1: "\<not> HasError (Append (Response.Diagnostics ?resp) (GetDiags ?req))"
    by simp
  have h2: "FindAuthorizationsByOrgID (listing_client ?auths) []
              (ValueString (AuthorizationResourceModel.OrgID (Value ?req))) = Inr (Some ?auths)"
    by (simp add: listing_client_def)
  have h3: "\<forall>a\<in>set ?auths. domain_Authorization.Id a
              \<noteq> Some (ValueString (AuthorizationResourceModel.ID (Value ?req)))"
    by (simp add: stored_model_def)
  have ids: "\<forall>a\<in>set ?auths. domain_Authorization.Id a \<noteq> None"
    by simp
  note inst = authorization_read_not_found
    [OF h1 h2 h3, of accept, THEN conjunct1, THEN mp, OF ids]
  show ?thesis
    using inst [THEN conjunct2] by (simp add: AddError_def stored_model_def)
qed

text \<open>
  A listed authorization without an id does not have the model's id, and the search
  dereferences its nil pointer: neither an error is returned nor a diagnostic reported.
\<close>

theorem authorization_read_nil_id_counterexample:
  "domain_Authorization.Id empty_Authorization
     \<noteq> Some (ValueString (AuthorizationResourceModel.ID stored_model))
   \<and> readAuthorization (listing_client [empty_Authorization]) stored_model []
     = (Panic, [Call_FindAuthorizationsByOrgID ''org1''])
   \<and> AuthorizationResource_Read accept (listing_client [empty_Authorization])
       \<lparr>Value = stored_model, GetDiags = []\<rparr>
       \<lparr>Response.Diagnostics = [], State = Some stored_model\<rparr> []
     = (Panic, [Call_FindAuthorizationsByOrgID ''org1''])"
  by (simp add: AuthorizationResource_Read_def readAuthorization_def listing_client_def
        offline_client_def empty_Authorization_def stored_model_def)

lemma find_authorization_found:
  "\<forall>a\<in>set pre. domain_Authorization.Id a \<noteq> None \<Longrightarrow>
   \<forall>a\<in>set pre. domain_Authorization.Id a \<noteq> Some mid \<Longrightarrow>
   domain_Authorization.Id auth = Some mid \<Longrightarrow>
   find_authorization (pre @ auth # post) mid = Return (Some auth)"
  by (induction pre) (auto split: option.splits)

lemma update_model_from_Permissions:
  "AuthorizationResourceModel.Permissions (update_model_from auth model)
     = AuthorizationResourceModel.Permissions model"
  by (simp add: update_model_from_def Let_def split: option.splits)

lemma update_model_from_Token:
  "AuthorizationResourceModel.Token (update_model_from auth model)
     = (case domain_Authorization.Token auth of
          None \<Rightarrow> AuthorizationResourceModel.Token model
        | Some t \<Rightarrow> StringValue t)"
  by (simp add: update_model_from_def Let_def split: option.splits)

text \<open>
  C4, as the code has it. When Read finds the authorization, the permissions of the model
  are kept; the token is kept when the listed record carries no token, and is replaced by
  the record's token when it carries one. The model so updated is the one handed to the
  state.
\<close>

theorem authorization_read_keeps_permissions:
  assumes "\<not> HasError (Append (Response.Diagnostics resp) (GetDiags req))"
    and "FindAuthorizationsByOrgID c tr
           (ValueString (AuthorizationResourceModel.OrgID (Value req)))
           = Inr (Some (pre @ auth # post))"
    and "\<forall>a\<in>set pre. domain_Authorization.Id a \<noteq> None"
    and "\<forall>a\<in>set pre. domain_Authorization.Id a
           \<noteq> Some (ValueString (AuthorizationResourceModel.ID (Value req)))"
    and "domain_Authorization.Id auth
           = Some (ValueString (AuthorizationResourceModel.ID (Value req)))"
  shows "readAuthorization c (Value req) tr =
           (Return (None, update_model_from auth (Value req)),
            tr @ [Call_FindAuthorizationsByOrgID
                    (ValueString (AuthorizationResourceModel.OrgID (Value req)))])
       \<and> AuthorizationResource_Read validate c req resp tr =
           (Return \<lparr>Response.Diagnostics =
                Append (Append (Response.Diagnostics resp) (GetDiags req))
                  (validate (update_model_from auth (Value req))),
              State = (if HasError (validate (update_model_from auth (Value req)))
                       then State resp
                       else Some (update_model_from auth (Value req)))\<rparr>,
            tr @ [Call_FindAuthorizationsByOrgID
                    (ValueString (AuthorizationResourceModel.OrgID (Value req)))])
       \<and> AuthorizationResourceModel.Permissions (update_model_from auth (Value req))
           = AuthorizationResourceModel.Permissions (Value req)
       \<and> AuthorizationResourceModel.Token (update_model_from auth (Value req))
           = (case domain_Authorization.Token auth of
                None \<Rightarrow> AuthorizationResourceModel.Token (Value req)
              | Some t \<Rightarrow> StringValue t)"
proof -
  have f: "find_authorization (pre @ auth # post)
             (ValueString (AuthorizationResourceModel.ID (Value req))) = Return (Some auth)"
    using assms(3,4,5) by (rule find_authorization_found)
  have r: "readAuthorization c (Value req) tr =
           (Return (None, update_model_from auth (Value req)),
            tr @ [Call_FindAuthorizationsByOrgID
                    (ValueString (AuthorizationResourceModel.OrgID (Value req)))])"
    using assms(2) f by (simp add: readAuthorization_def Let_def)
  have d: "AuthorizationResource_Read validate c req resp tr =
           (Return \<lparr>Response.Diagnostics =
                Append (Append (Response.Diagnostics resp) (GetDiags req))
                  (validate (update_model_from auth (Value req))),
              State = (if HasError (validate (update_model_from auth (Value req)))
                       then State resp
                       else Some (update_model_from auth (Value req)))\<rparr>,
            tr @ [Call_FindAuthorizationsByOrgID
                    (ValueString (AuthorizationResourceModel.OrgID (Value req)))])"
    using assms(1) r by (simp add: AuthorizationResource_Read_def Let_def State_Set_cases)
  show ?thesis
    using r d by (simp add: update_model_from_Permissions update_model_from_Token)
qed

theorem authorization_read_keeps_permissions_witness:
  "AuthorizationResource_Read accept
     (listing_client
        [empty_Authorization\<lparr>domain_Authorization.Id := Some ''a0''\<rparr>,
         empty_Authorization\<lparr>domain_Authorization.Id := Some ''a1'',
                             domain_Authorization.Status := Some ''inactive''\<rparr>])
     \<lparr>Value = stored_model, GetDiags = []\<rparr>
     \<lparr>Response.Diagnostics = [], State = Some stored_model\<rparr> []
   = (Return \<lparr>Response.Diagnostics = [],
        State = Some (stored_model\<lparr>AuthorizationResourceModel.Status := StringValue ''inactive''\<rparr>)\<rparr>,
      [Call_FindAuthorizationsByOrgID ''org1''])"
  using authorization_read_keeps_permissions
    [of "\<lparr>Response.Diagnostics = [], State = Some stored_model\<rparr>"
        "\<lparr>Value = stored_model, GetDiags = []\<rparr>"
        "listing_client
           [empty_Authorization\<lparr>domain_Authorization.Id := Some ''a0''\<rparr>,
            empty_Authorization\<lparr>domain_Authorization.Id := Some ''a1'',
                                domain_Authorization.Status := Some ''inactive''\<rparr>]"
        "[]"
        "[empty_Authorization\<lparr>domain_Authorization.Id := Some ''a0''\<rparr>]"
        "empty_Authorization\<lparr>domain_Authorization.Id := Some ''a1'',
                            domain_Authorization.Status := Some ''inactive''\<rparr>"
        "[]" accept]
  by (simp add: listing_client_def offline_client_def empty_Authorization_def stored_model_def
        update_model_from_def accept_def)

text \<open>
  The token of the state is overwritten when the listed authorization carries a token.
\<close>

theorem authorization_read_token_counterexample:
  "AuthorizationResource_Read accept
     (listing_client
        [empty_Authorization\<lparr>domain_Authorization.Id := Some ''a1'',
                             domain_Authorization.Token := Some ''rotated''\<rparr>])
     \<lparr>Value = stored_model, GetDiags = []\<rparr>
     \<lparr>Response.Diagnostics = [], State = Some stored_model\<rparr> []
   = (Return \<lparr>Response.Diagnostics = [],
        State = Some (stored_model\<lparr>AuthorizationResourceModel.Token := StringValue ''rotated''\<rparr>)\<rparr>,
      [Call_FindAuthorizationsByOrgID ''org1''])
   \<and> AuthorizationResourceModel.Token
        (stored_model\<lparr>AuthorizationResourceModel.Token := StringValue ''rotated''\<rparr>)
       \<noteq> AuthorizationResourceModel.Token stored_model"
  by (simp add: AuthorizationResource_Read_def readAuthorization_def listing_client_def
        offline_client_def empty_Authorization_def stored_model_def update_model_from_def
        State_Set_cases accept_def)

subsection \<open>Authorization: updating\<close>

lemma readAuthorization_trace:
  "snd (readAuthorization c model tr)
     = tr @ [Call_FindAuthorizationsByOrgID
               (ValueString (AuthorizationResourceModel.OrgID model))]"
  by (simp add: readAuthorization_def Let_def split: sum.splits option.splits outcome.splits)

text \<open>
  C6. Update sends one mutation to the store, \<open>UpdateAuthorizationStatus\<close> with an
  authorization that carries the id alone and with the status of the plan; description,
  permissions and organization are not part of it. When the update succeeds the
  operation runs \<open>readAuthorization\<close> (one listing call) and hands the model it returns
  to the state; when the plan cannot be decoded no call is made.
\<close>

theorem authorization_update_status_only:
  "(HasError (Append (Response.Diagnostics resp) (GetDiags req)) \<longrightarrow>
      snd (AuthorizationResource_Update validate c req resp tr) = tr)
   \<and> (\<not> HasError (Append (Response.Diagnostics resp) (GetDiags req)) \<longrightarrow>
      snd (AuthorizationResource_Update validate c req resp tr) =
        tr @ Call_UpdateAuthorizationStatus
               (Update_authorization (ValueString (AuthorizationResourceModel.ID (Value req))))
               (ValueString (AuthorizationResourceModel.Status (Value req)))
           # (case UpdateAuthorizationStatus c tr
                     (Update_authorization
                        (ValueString (AuthorizationResourceModel.ID (Value req))))
                     (ValueString (AuthorizationResourceModel.Status (Value req))) of
                Inl err \<Rightarrow> []
              | Inr updated \<Rightarrow>
                  [Call_FindAuthorizationsByOrgID
                     (ValueString (AuthorizationResourceModel.OrgID (Value req)))])
      \<and> fst (AuthorizationResource_Update validate c req resp tr) =
          (case UpdateAuthorizationStatus c tr
                  (Update_authorization
                     (ValueString (AuthorizationResourceModel.ID (Value req))))
                  (ValueString (AuthorizationResourceModel.Status (Value req))) of
             Inl err \<Rightarrow>
               Return \<lparr>Response.Diagnostics =
                   AddError (Append (Response.Diagnostics resp) (GetDiags req))
                     ''Error Updating Authorization''
                     (''Could not update authorization status: '' @ err),
                 State = State resp\<rparr>
           | Inr updated \<Rightarrow>
               (case fst (readAuthorization c (Value req)
                      (tr @ [Call_UpdateAuthorizationStatus
                         (Update_authorization
                            (ValueString (AuthorizationResourceModel.ID (Value req))))
                         (ValueString (AuthorizationResourceModel.Status (Value req)))])) of
                  Panic \<Rightarrow> Panic
                | Return (Some err, plan) \<Rightarrow>
                    Return \<lparr>Response.Diagnostics =
                        AddError (Append (Response.Diagnostics resp) (GetDiags req))
                          ''Error Reading Authorization After Update''
                          (''Could not read authorization after update: '' @ err),
                      State = State resp\<rparr>
                | Return (None, plan) \<Rightarrow>
                    Return \<lparr>Response.Diagnostics =
                        Append (Append (Response.Diagnostics resp) (GetDiags req))
                          (validate plan),
                      State = (if HasError (validate plan) then State resp
                               else Some plan)\<rparr>)))
   \<and> Update_authorization i =
       \<lparr>domain_Authorization.Description = None, domain_Authorization.Status = None,
        domain_Authorization.Id = Some i, domain_Authorization.OrgID = None,
        domain_Authorization.Permissions = None, domain_Authorization.Token = None,
        domain_Authorization.UserID = None\<rparr>"
proof (intro conjI impI)
  assume "HasError (Append (Response.Diagnostics resp) (GetDiags req))"
  then show "snd (AuthorizationResource_Update validate c req resp tr) = tr"
    by (simp add: AuthorizationResource_Update_def Let_def)
next
  let ?call = "Call_UpdateAuthorizationStatus
                 (Update_authorization (ValueString (AuthorizationResourceModel.ID (Value req))))
                 (ValueString (AuthorizationResourceModel.Status (Value req)))"
  assume ok: "\<not> HasError (Append (Response.Diagnostics resp) (GetDiags req))"
  obtain r tr2 where rd: "readAuthorization c (Value req) (tr @ [?call]) = (r, tr2)"
    by (cases "readAuthorization c (Value req) (tr @ [?call])") auto
  have tr2: "tr2 = tr @ [?call, Call_FindAuthorizationsByOrgID
                     (ValueString (AuthorizationResourceModel.OrgID (Value req)))]"
    using readAuthorization_trace[of c "Value req" "tr @ [?call]"] rd by simp
  show "snd (AuthorizationResource_Update validate c req resp tr) =
        tr @ ?call
           # (case UpdateAuthorizationStatus c tr
                     (Update_authorization
                        (ValueString (AuthorizationResourceModel.ID (Value req))))
                     (ValueString (AuthorizationResourceModel.Status (Value req))) of
                Inl err \<Rightarrow> []
              | Inr updated \<Rightarrow>
                  [Call_FindAuthorizationsByOrgID
                     (ValueString (AuthorizationResourceModel.OrgID (Value req)))])"
    using ok rd tr2
    by (simp add: AuthorizationResource_Update_def Let_def
          split: sum.splits outcome.splits option.splits prod.splits)
  show "fst (AuthorizationResource_Update validate c req resp tr) =
          (case UpdateAuthorizationStatus c tr
                  (Update_authorization
                     (ValueString (AuthorizationResourceModel.ID (Value req))))
                  (ValueString (AuthorizationResourceModel.Status (Value req))) of
             Inl err \<Rightarrow>
               Return \<lparr>Response.Diagnostics =
                   AddError (Append (Response.Diagnostics resp) (GetDiags req))
                     ''Error Updating Authorization''
                     (''Could not update authorization status: '' @ err),
                 State = State resp\<rparr>
           | Inr updated \<Rightarrow>
               (case fst (readAuthorization c (Value req) (tr @ [?call])) of
                  Panic \<Rightarrow> Panic
                | Return (Some err, plan) \<Rightarrow>
                    Return \<lparr>Response.Diagnostics =
                        AddError (Append (Response.Diagnostics resp) (GetDiags req))
                          ''Error Reading Authorization After Update''
                          (''Could not read authorization after update: '' @ err),
                      State = State resp\<rparr>
                | Return (None, plan) \<Rightarrow>
                    Return \<lparr>Response.Diagnostics =
                        Append (Append (Response.Diagnostics resp) (GetDiags req))
                          (validate plan),
                      State = (if HasError (validate plan) then State resp
                               else Some plan)\<rparr>))"
    using ok rd
    by (simp add: AuthorizationResource_Update_def Let_def State_Set_cases
          split: sum.splits outcome.splits option.splits prod.splits)
next
  show "Update_authorization i =
       \<lparr>domain_Authorization.Description = None, domain_Authorization.Status = None,
        domain_Authorization.Id = Some i, domain_Authorization.OrgID = None,
        domain_Authorization.Permissions = None, domain_Authorization.Token = None,
        domain_Authorization.UserID = None\<rparr>"
    by (simp add: Update_authorization_def)
qed

theorem authorization_update_status_only_witness:
  "AuthorizationResource_Update accept
     (listing_client
        [empty_Authorization\<lparr>domain_Authorization.Id := Some ''a1'',
                             domain_Authorization.Status := Some ''inactive''\<rparr>])
     \<lparr>Value = stored_model\<lparr>AuthorizationResourceModel.Status := StringValue ''inactive'',
                            AuthorizationResourceModel.Description := StringValue ''renamed''\<rparr>,
      GetDiags = []\<rparr>
     \<lparr>Response.Diagnostics = [], State = Some stored_model\<rparr> []
   = (Return \<lparr>Response.Diagnostics = [],
        State = Some (stored_model
          \<lparr>AuthorizationResourceModel.Status := StringValue ''inactive'',
           AuthorizationResourceModel.Description := StringValue ''renamed''\<rparr>)\<rparr>,
      [Call_UpdateAuthorizationStatus (Update_authorization ''a1'') ''inactive'',
       Call_FindAuthorizationsByOrgID ''org1''])"
proof -
  let ?c = "listing_client
        [empty_Authorization\<lparr>domain_Authorization.Id := Some ''a1'',
                             domain_Authorization.Status := Some ''inactive''\<rparr>]"
  let ?req = "\<lparr>Value = stored_model\<lparr>AuthorizationResourceModel.Status := StringValue ''inactive'',
                            AuthorizationResourceModel.Description := StringValue ''renamed''\<rparr>,
      GetDiags = []\<rparr>"
  let ?resp = "\<lparr>Response.Diagnostics = [], State = Some stored_model\<rparr>"
  have "snd (AuthorizationResource_Update accept ?c ?req ?resp []) =
          [Call_UpdateAuthorizationStatus (Update_authorization ''a1'') ''inactive'',
           Call_FindAuthorizationsByOrgID ''org1'']"
    using authorization_update_status_only[of ?resp ?req accept ?c "[]"]
    by (simp add: listing_client_def offline_client_def stored_model_def)
  moreover have "fst (AuthorizationResource_Update accept ?c ?req ?resp []) =
          Return \<lparr>Response.Diagnostics = [],
        State = Some (stored_model
          \<lparr>AuthorizationResourceModel.Status := StringValue ''inactive'',
           AuthorizationResourceModel.Description := StringValue ''renamed''\<rparr>)\<rparr>"
    by (simp add: AuthorizationResource_Update_def readAuthorization_def listing_client_def
          offline_client_def stored_model_def empty_Authorization_def update_model_from_def
          State_Set_cases Update_authorization_def accept_def)
  ultimately show ?thesis by (simp add: prod_eq_iff)
qed

subsection \<open>Readiness data source\<close>

lemma ReadyDataSource_Read_ready:
  "Client.Ready c tr = Inr (Some ready) \<Longrightarrow>
   ReadyDataSource_Read validate c resp tr =
     (Return (State_Set validate
        \<lparr>ReadyDataSourceModel.ID = StringValue (ServerURL c),
         ReadyDataSourceModel.URL = StringValue (ServerURL c),
         ReadyDataSourceModel.Ready = BoolValue True,
         ReadyDataSourceModel.Status =
           StringValue (case domain_Ready.Status ready of
                          Some s \<Rightarrow> s | None \<Rightarrow> ''unknown''),
         ReadyDataSourceModel.Started =
           StringValue (case domain_Ready.Started ready of
                          Some t \<Rightarrow> String t | None \<Rightarrow> [])\<rparr> resp),
      tr @ [Call_Ready])"
  by (simp add: ReadyDataSource_Read_def Let_def split: option.splits)

text \<open>
  C8. When \<open>client.Ready\<close> returns an error, Read reports an error diagnostic that
  embeds the text of the error and leaves the state as it was. When it returns a
  readiness record, the model handed to the state has \<open>ready = true\<close>. On every path,
  a state that Read stores has \<open>ready = true\<close>.
\<close>

theorem ready_read_error_or_true:
  "(\<forall>err. Client.Ready c tr = Inl err \<longrightarrow>
      ReadyDataSource_Read validate c resp tr =
        (Return \<lparr>Response.Diagnostics =
             AddError (Response.Diagnostics resp) ''Error Checking Server Status''
               (''Could not check if server is ready: '' @ err),
           State = State resp\<rparr>,
         tr @ [Call_Ready]))
   \<and> (\<forall>ready. Client.Ready c tr = Inr (Some ready) \<longrightarrow>
      (\<exists>state. ReadyDataSource_Read validate c resp tr =
                 (Return \<lparr>Response.Diagnostics =
                      Append (Response.Diagnostics resp) (validate state),
                    State = (if HasError (validate state) then State resp
                             else Some state)\<rparr>,
                  tr @ [Call_Ready])
             \<and> ReadyDataSourceModel.Ready state = BoolValue True))
   \<and> (\<forall>r. fst (ReadyDataSource_Read validate c resp tr) = Return r \<longrightarrow>
      State r = State resp
      \<or> (\<exists>state. State r = Some state
                 \<and> ReadyDataSourceModel.Ready state = BoolValue True))"
proof (intro conjI allI impI)
  fix err
  assume "Client.Ready c tr = Inl err"
  then show "ReadyDataSource_Read validate c resp tr =
        (Return \<lparr>Response.Diagnostics =
             AddError (Response.Diagnostics resp) ''Error Checking Server Status''
               (''Could not check if server is ready: '' @ err),
           State = State resp\<rparr>,
         tr @ [Call_Ready])"
    by (simp add: ReadyDataSource_Read_def)
next
  fix ready
  assume ready: "Client.Ready c tr = Inr (Some ready)"
  let ?state = "\<lparr>ReadyDataSourceModel.ID = StringValue (ServerURL c),
                 ReadyDataSourceModel.URL = StringValue (ServerURL c),
                 ReadyDataSourceModel.Ready = BoolValue True,
                 ReadyDataSourceModel.Status =
                   StringValue (case domain_Ready.Status ready of
                                  Some s \<Rightarrow> s | None \<Rightarrow> ''unknown''),
                 ReadyDataSourceModel.Started =
                   StringValue (case domain_Ready.Started ready of
                                  Some t \<Rightarrow> String t | None \<Rightarrow> [])\<rparr>"
  have "ReadyDataSource_Read validate c resp tr =
          (Return (State_Set validate ?state resp), tr @ [Call_Ready])"
    using ready by (rule ReadyDataSource_Read_ready)
  then have explicit: "ReadyDataSource_Read validate c resp tr =
                 (Return \<lparr>Response.Diagnostics =
                      Append (Response.Diagnostics resp) (validate ?state),
                    State = (if HasError (validate ?state) then State resp
                             else Some ?state)\<rparr>,
                  tr @ [Call_Ready])
             \<and> ReadyDataSourceModel.Ready ?state = BoolValue True"
    by (simp add: State_Set_cases)
  show "\<exists>state. ReadyDataSource_Read validate c resp tr =
                 (Return \<lparr>Response.Diagnostics =
                      Append (Response.Diagnostics resp) (validate state),
                    State = (if HasError (validate state) then State resp
                             else Some state)\<rparr>,
                  tr @ [Call_Ready])
             \<and> ReadyDataSourceModel.Ready state = BoolValue True"
    by (rule exI [of _ ?state]) (rule explicit)
next
  fix r
  assume ret: "fst (ReadyDataSource_Read validate c resp tr) = Return r"
  show "State r = State resp
      \<or> (\<exists>state. State r = Some state
                 \<and> ReadyDataSourceModel.Ready state = BoolValue True)"
  proof (cases "Client.Ready c tr")
    case (Inl err)
    with ret show ?thesis
      by (auto simp: ReadyDataSource_Read_def)
  next
    case (Inr p)
    show ?thesis
    proof (cases p)
      case None
      with Inr ret show ?thesis
        by (simp add: ReadyDataSource_Read_def)
    next
      case (Some ready)
      with Inr have "Client.Ready c tr = Inr (Some ready)"
        by simp
      from ReadyDataSource_Read_ready [OF this, of validate resp] ret
      show ?thesis
        by (auto simp: State_Set_cases)
    qed
  qed
qed

theorem ready_read_error_or_true_witness:
  "ReadyDataSource_Read accept offline_client \<lparr>Response.Diagnostics = [], State = None\<rparr> []
     = (Return \<lparr>Response.Diagnostics =
            [\<lparr>Severity = SeverityError, Summary = ''Error Checking Server Status'',
              Detail = ''Could not check if server is ready: connection refused''\<rparr>],
          State = None\<rparr>,
        [Call_Ready])
   \<and> ReadyDataSource_Read accept
       (offline_client\<lparr>Client.Ready :=
          (\<lambda>tr. Inr (Some \<lparr>domain_Ready.Started = None, domain_Ready.Status = None\<rparr>))\<rparr>)
       \<lparr>Response.Diagnostics = [], State = None\<rparr> []
     = (Return \<lparr>Response.Diagnostics = [],
          State = Some \<lparr>ReadyDataSourceModel.ID = StringValue ''http://localhost:8086'',
                        ReadyDataSourceModel.URL = StringValue ''http://localhost:8086'',
                        ReadyDataSourceModel.Ready = BoolValue True,
                        ReadyDataSourceModel.Status = StringValue ''unknown'',
                        ReadyDataSourceModel.Started = StringValue []\<rparr>\<rparr>,
        [Call_Ready])"
proof -
  have e: "Client.Ready offline_client [] = Inl ''connection refused''"
    by (simp add: offline_client_def)
  have "ReadyDataSource_Read accept offline_client \<lparr>Response.Diagnostics = [], State = None\<rparr> []
     = (Return \<lparr>Response.Diagnostics =
            AddError [] ''Error Checking Server Status''
              (''Could not check if server is ready: '' @ ''connection refused''),
          State = None\<rparr>,
        [] @ [Call_Ready])"
    using ready_read_error_or_true
      [of offline_client "[]" accept "\<lparr>Response.Diagnostics = [], State = None\<rparr>"] e
    by simp
  then show ?thesis
    by (simp add: AddError_def ReadyDataSource_Read_def offline_client_def State_Set_cases Let_def
          accept_def)
qed

subsection \<open>Bucket: reading\<close>

lemma retentionRuleType_accepted:
  "\<not> ObjectValue_HasError retentionRuleType
        [(''every_seconds'', Int64Type), (''type'', StringType)]"
  by (simp add: ObjectValue_HasError_def retentionRuleType_def)

lemma SetValue_same_type: "\<not> SetValue_HasError t (map ((\<lambda>e. t) \<circ> f) elements)"
  by (induction elements) (simp_all add: SetValue_HasError_def)

lemma retention_rules_loop_map:
  "retention_rules_loop domainRules elements =
     Inr (elements @
            map (\<lambda>rule.
                   \<lparr>RetentionRuleModel.EverySeconds =
                      Int64Value (domain_RetentionRule.EverySeconds rule),
                    RetentionRuleModel.Type =
                      StringValue (case domain_RetentionRule.Type rule of
                                     None \<Rightarrow> ''expire''
                                   | Some t \<Rightarrow> t)\<rparr>) domainRules)"
proof (induction domainRules arbitrary: elements)
  case Nil
  show ?case by simp
next
  case (Cons rule rest)
  show ?case
    using retentionRuleType_accepted by (simp add: Cons.IH Let_def)
qed

lemma convertRetentionRulesToTerraform_map:
  "convertRetentionRulesToTerraform domainRules =
     (SetValue (map (\<lambda>rule.
                   \<lparr>RetentionRuleModel.EverySeconds =
                      Int64Value (domain_RetentionRule.EverySeconds rule),
                    RetentionRuleModel.Type =
                      StringValue (case domain_RetentionRule.Type rule of
                                     None \<Rightarrow> ''expire''
                                   | Some t \<Rightarrow> t)\<rparr>) domainRules),
      None)"
  using SetValue_same_type
  by (simp add: convertRetentionRulesToTerraform_def retention_rules_loop_map)

lemma update_bucket_model_ID:
  "BucketResourceModel.ID (update_bucket_model result model) = BucketResourceModel.ID model"
  by (simp add: update_bucket_model_def Let_def split: option.splits)

lemma update_bucket_model_Description:
  "BucketResourceModel.Description (update_bucket_model result model)
     = StringValue (case domain_Bucket.Description result of None \<Rightarrow> [] | Some d \<Rightarrow> d)"
  by (simp add: update_bucket_model_def Let_def split: option.splits)

lemma update_bucket_model_RP:
  "BucketResourceModel.RP (update_bucket_model result model)
     = StringValue (case domain_Bucket.Rp result of None \<Rightarrow> [] | Some rp \<Rightarrow> rp)"
  by (simp add: update_bucket_model_def Let_def split: option.splits)

lemma readBucket_found:
  assumes "FindBucketByID c tr (ValueString (BucketResourceModel.ID model)) = Inr (Some result)"
  shows "readBucket c model tr =
           (Return (None,
              (update_bucket_model result model)
                \<lparr>BucketResourceModel.RetentionRules :=
                   fst (convertRetentionRulesToTerraform (domain_Bucket.RetentionRules result))\<rparr>),
            tr @ [Call_FindBucketByID (ValueString (BucketResourceModel.ID model))])"
  using assms
  by (simp add: readBucket_def Let_def convertRetentionRulesToTerraform_map)

text \<open>
  C3. For a bucket that \<open>FindBucketByID\<close> returns, \<open>readBucket\<close> succeeds and sets the
  description and the retention policy of the model to known strings, the empty string
  when the pointer is nil; \<open>convertRetentionRulesToTerraform\<close> succeeds and maps every
  rule to a rule whose type is a known string, \<open>expire\<close> when the pointer is nil.
\<close>

theorem readBucket_defaults:
  "(\<forall>result. FindBucketByID c tr (ValueString (BucketResourceModel.ID model))
                = Inr (Some result) \<longrightarrow>
      (\<exists>m. readBucket c model tr =
              (Return (None, m),
               tr @ [Call_FindBucketByID (ValueString (BucketResourceModel.ID model))])
          \<and> BucketResourceModel.Description m =
              StringValue (case domain_Bucket.Description result of
                             None \<Rightarrow> [] | Some d \<Rightarrow> d)
          \<and> BucketResourceModel.RP m =
              StringValue (case domain_Bucket.Rp result of None \<Rightarrow> [] | Some rp \<Rightarrow> rp)
          \<and> BucketResourceModel.RetentionRules m =
              fst (convertRetentionRulesToTerraform (domain_Bucket.RetentionRules result))))
   \<and> convertRetentionRulesToTerraform domainRules =
       (SetValue (map (\<lambda>rule.
                     \<lparr>RetentionRuleModel.EverySeconds =
                        Int64Value (domain_RetentionRule.EverySeconds rule),
                      RetentionRuleModel.Type =
                        StringValue (case domain_RetentionRule.Type rule of
                                       None \<Rightarrow> ''expire''
                                     | Some t \<Rightarrow> t)\<rparr>) domainRules),
        None)"
proof (intro conjI allI impI)
  fix result
  assume found: "FindBucketByID c tr (ValueString (BucketResourceModel.ID model))
                   = Inr (Some result)"
  let ?m = "(update_bucket_model result model)
              \<lparr>BucketResourceModel.RetentionRules :=
                 fst (convertRetentionRulesToTerraform (domain_Bucket.RetentionRules result))\<rparr>"
  have "readBucket c model tr =
          (Return (None, ?m),
           tr @ [Call_FindBucketByID (ValueString (BucketResourceModel.ID model))])"
    using found by (rule readBucket_found)
  moreover have "BucketResourceModel.Description ?m =
              StringValue (case domain_Bucket.Description result of
                             None \<Rightarrow> [] | Some d \<Rightarrow> d)"
    by (simp add: update_bucket_model_Description)
  moreover have "BucketResourceModel.RP ?m =
              StringValue (case domain_Bucket.Rp result of None \<Rightarrow> [] | Some rp \<Rightarrow> rp)"
    by (simp add: update_bucket_model_RP)
  moreover have "BucketResourceModel.RetentionRules ?m =
              fst (convertRetentionRulesToTerraform (domain_Bucket.RetentionRules result))"
    by simp
  ultimately show "\<exists>m. readBucket c model tr =
              (Return (None, m),
               tr @ [Call_FindBucketByID (ValueString (BucketResourceModel.ID model))])
          \<and> BucketResourceModel.Description m =
              StringValue (case domain_Bucket.Description result of
                             None \<Rightarrow> [] | Some d \<Rightarrow> d)
          \<and> BucketResourceModel.RP m =
              StringValue (case domain_Bucket.Rp result of None \<Rightarrow> [] | Some rp \<Rightarrow> rp)
          \<and> BucketResourceModel.RetentionRules m =
              fst (convertRetentionRulesToTerraform (domain_Bucket.RetentionRules result))"
    by blast
next
  show "convertRetentionRulesToTerraform domainRules =
       (SetValue (map (\<lambda>rule.
                     \<lparr>RetentionRuleModel.EverySeconds =
                        Int64Value (domain_RetentionRule.EverySeconds rule),
                      RetentionRuleModel.Type =
                        StringValue (case domain_RetentionRule.Type rule of
                                       None \<Rightarrow> ''expire''
                                     | Some t \<Rightarrow> t)\<rparr>) domainRules),
        None)"
    by (rule convertRetentionRulesToTerraform_map)
qed

theorem readBucket_defaults_witness:
  "FindBucketByID bucket_client [] (ValueString (BucketResourceModel.ID bucket_state))
     = Inr (Some sample_bucket)
   \<and> domain_Bucket.Description sample_bucket = None
   \<and> domain_Bucket.Rp sample_bucket = None
   \<and> readBucket bucket_client
        (bucket_plan\<lparr>BucketResourceModel.ID := StringValue ''b1'',
                     BucketResourceModel.Description := StringNull,
                     BucketResourceModel.RP := StringNull\<rparr>) []
       = (Return (None, bucket_state), [Call_FindBucketByID ''b1''])
   \<and> BucketResourceModel.Description bucket_state = StringValue []
   \<and> BucketResourceModel.RP bucket_state = StringValue []
   \<and> convertRetentionRulesToTerraform
        [\<lparr>domain_RetentionRule.EverySeconds = 2592000, domain_RetentionRule.Type = None\<rparr>]
       = (SetValue [\<lparr>RetentionRuleModel.EverySeconds = Int64Value 2592000,
                     RetentionRuleModel.Type = StringValue ''expire''\<rparr>], None)"
proof -
  have "convertRetentionRulesToTerraform
        [\<lparr>domain_RetentionRule.EverySeconds = 2592000, domain_RetentionRule.Type = None\<rparr>]
       = (SetValue [\<lparr>RetentionRuleModel.EverySeconds = Int64Value 2592000,
                     RetentionRuleModel.Type = StringValue ''expire''\<rparr>], None)"
    using readBucket_defaults
      [of bucket_client "[]" bucket_state
          "[\<lparr>domain_RetentionRule.EverySeconds = 2592000, domain_RetentionRule.Type = None\<rparr>]"]
    by simp
  then show ?thesis
    by (simp add: readBucket_def bucket_client_def offline_client_def sample_bucket_def
          bucket_plan_def bucket_state_def update_bucket_model_def Let_def)
qed

subsection \<open>Bucket: creating\<close>

lemma readBucket_trace:
  "snd (readBucket c model tr)
     = tr @ [Call_FindBucketByID (ValueString (BucketResourceModel.ID model))]"
  by (simp add: readBucket_def Let_def convertRetentionRulesToTerraform_map
        split: sum.splits option.splits)

lemma readBucket_ID:
  "readBucket c model tr = (Return (err, m), tr') \<Longrightarrow>
   BucketResourceModel.ID m = BucketResourceModel.ID model"
  by (auto simp: readBucket_def Let_def convertRetentionRulesToTerraform_map
        update_bucket_model_ID split: sum.splits option.splits)

text \<open>
  C2. The bucket that Create sends carries description, name, organization, retention
  rules and retention policy of the plan. When \<open>CreateBucket\<close> succeeds and returns an
  id, Create sets the id of the plan to it and runs \<open>readBucket\<close> on that model. When the
  read succeeds, the model it returns, with the new id, is handed to the state, and the
  response and the trace are those of a Read of the model with the new id: what is saved
  is what that Read saves. When the read fails, an error diagnostic is added and the
  state is left as it was. A bucket returned without an id ends Create in a nil
  dereference, with no state saved.
\<close>

theorem bucket_create_reads_back:
  assumes "\<not> HasError (Append (Response.Diagnostics resp) (GetDiags req))"
    and "convertRetentionRulesToDomain (BucketResourceModel.RetentionRules (Value req))
           = Inr retentionRules"
    and "newBucket =
           Create_newBucket (ValueString (BucketResourceModel.Description (Value req)))
             (ValueString (BucketResourceModel.Name (Value req)))
             (ValueString (BucketResourceModel.OrgID (Value req)))
             retentionRules (ValueString (BucketResourceModel.RP (Value req)))"
    and "CreateBucket c tr newBucket = Inr (Some result)"
  shows "newBucket =
           \<lparr>domain_Bucket.CreatedAt = None,
            domain_Bucket.Description =
              Some (ValueString (BucketResourceModel.Description (Value req))),
            domain_Bucket.Id = None,
            domain_Bucket.Name = ValueString (BucketResourceModel.Name (Value req)),
            domain_Bucket.OrgID = Some (ValueString (BucketResourceModel.OrgID (Value req))),
            domain_Bucket.RetentionRules = retentionRules,
            domain_Bucket.Rp = Some (ValueString (BucketResourceModel.RP (Value req))),
            domain_Bucket.Type = None,
            domain_Bucket.UpdatedAt = None\<rparr>
       \<and> (domain_Bucket.Id result = None \<longrightarrow>
            BucketResource_Create validate c req resp tr
              = (Panic, tr @ [Call_CreateBucket newBucket]))
       \<and> (\<forall>i. domain_Bucket.Id result = Some i \<longrightarrow>
            snd (BucketResource_Create validate c req resp tr)
              = tr @ [Call_CreateBucket newBucket, Call_FindBucketByID i]
            \<and> fst (BucketResource_Create validate c req resp tr) =
               (case fst (readBucket c
                            ((Value req)\<lparr>BucketResourceModel.ID := StringValue i\<rparr>)
                            (tr @ [Call_CreateBucket newBucket])) of
                  Panic \<Rightarrow> Panic
                | Return (Some err, plan) \<Rightarrow>
                    Return \<lparr>Response.Diagnostics =
                        AddError (Append (Response.Diagnostics resp) (GetDiags req))
                          ''Error Reading Bucket After Creation''
                          (''Could not read bucket after creation: '' @ err),
                      State = State resp\<rparr>
                | Return (None, plan) \<Rightarrow>
                    Return \<lparr>Response.Diagnostics =
                        Append (Append (Response.Diagnostics resp) (GetDiags req))
                          (validate plan),
                      State = (if HasError (validate plan) then State resp
                               else Some plan)\<rparr>)
            \<and> (\<forall>plan tr'.
                  readBucket c ((Value req)\<lparr>BucketResourceModel.ID := StringValue i\<rparr>)
                    (tr @ [Call_CreateBucket newBucket]) = (Return (None, plan), tr')
                  \<longrightarrow> BucketResourceModel.ID plan = StringValue i
                    \<and> BucketResource_Create validate c req resp tr =
                        BucketResource_Read validate c
                          \<lparr>Value = (Value req)\<lparr>BucketResourceModel.ID := StringValue i\<rparr>,
                           GetDiags = []\<rparr>
                          \<lparr>Response.Diagnostics =
                             Append (Response.Diagnostics resp) (GetDiags req),
                           State = State resp\<rparr>
                          (tr @ [Call_CreateBucket newBucket])))"
proof (intro conjI impI allI)
  show "newBucket =
           \<lparr>domain_Bucket.CreatedAt = None,
            domain_Bucket.Description =
              Some (ValueString (BucketResourceModel.Description (Value req))),
            domain_Bucket.Id = None,
            domain_Bucket.Name = ValueString (BucketResourceModel.Name (Value req)),
            domain_Bucket.OrgID = Some (ValueString (BucketResourceModel.OrgID (Value req))),
            domain_Bucket.RetentionRules = retentionRules,
            domain_Bucket.Rp = Some (ValueString (BucketResourceModel.RP (Value req))),
            domain_Bucket.Type = None,
            domain_Bucket.UpdatedAt = None\<rparr>"
    unfolding assms(3) by (simp add: Create_newBucket_def)
next
  assume "domain_Bucket.Id result = None"
  then show "BucketResource_Create validate c req resp tr
               = (Panic, tr @ [Call_CreateBucket newBucket])"
    using assms(1,2,4) unfolding BucketResource_Create_def assms(3)
    by (simp add: Let_def)
next
  fix i
  assume id: "domain_Bucket.Id result = Some i"
  let ?plan = "(Value req)\<lparr>BucketResourceModel.ID := StringValue i\<rparr>"
  let ?tr = "tr @ [Call_CreateBucket newBucket]"
  let ?resp = "\<lparr>Response.Diagnostics = Append (Response.Diagnostics resp) (GetDiags req),
                State = State resp\<rparr>"
  obtain r tr2 where rd: "readBucket c ?plan ?tr = (r, tr2)"
    by (cases "readBucket c ?plan ?tr") auto
  have tr2: "tr2 = tr @ [Call_CreateBucket newBucket, Call_FindBucketByID i]"
    using readBucket_trace[of c ?plan ?tr] rd by simp
  have create: "BucketResource_Create validate c req resp tr =
          (case r of
              Panic \<Rightarrow> Panic
            | Return (Some err, plan) \<Rightarrow>
                Return \<lparr>Response.Diagnostics =
                    AddError (Append (Response.Diagnostics resp) (GetDiags req))
                      ''Error Reading Bucket After Creation''
                      (''Could not read bucket after creation: '' @ err),
                  State = State resp\<rparr>
            | Return (None, plan) \<Rightarrow>
                Return \<lparr>Response.Diagnostics =
                    Append (Append (Response.Diagnostics resp) (GetDiags req))
                      (validate plan),
                  State = (if HasError (validate plan) then State resp else Some plan)\<rparr>,
           tr2)"
    using assms(1,2,4) id rd
    unfolding BucketResource_Create_def assms(3)
    by (simp add: Let_def State_Set_cases split: outcome.splits option.splits prod.splits)
  show "snd (BucketResource_Create validate c req resp tr)
          = tr @ [Call_CreateBucket newBucket, Call_FindBucketByID i]"
    using create tr2 by simp
  show "fst (BucketResource_Create validate c req resp tr) =
               (case fst (readBucket c ?plan ?tr) of
                  Panic \<Rightarrow> Panic
                | Return (Some err, plan) \<Rightarrow>
                    Return \<lparr>Response.Diagnostics =
                        AddError (Append (Response.Diagnostics resp) (GetDiags req))
                          ''Error Reading Bucket After Creation''
                          (''Could not read bucket after creation: '' @ err),
                      State = State resp\<rparr>
                | Return (None, plan) \<Rightarrow>
                    Return \<lparr>Response.Diagnostics =
                        Append (Append (Response.Diagnostics resp) (GetDiags req))
                          (validate plan),
                      State = (if HasError (validate plan) then State resp
                               else Some plan)\<rparr>)"
    using create rd by simp
  fix plan tr'
  assume ok: "readBucket c ?plan ?tr = (Return (None, plan), tr')"
  then show "BucketResourceModel.ID plan = StringValue i"
    using readBucket_ID[of c ?plan ?tr None plan tr'] by simp
  from ok rd have r: "r = Return (None, plan)" and t: "tr' = tr2"
    by simp_all
  have "BucketResource_Read validate c \<lparr>Value = ?plan, GetDiags = []\<rparr> ?resp ?tr
          = (Return \<lparr>Response.Diagnostics =
                 Append (Append (Response.Diagnostics resp) (GetDiags req)) (validate plan),
               State = (if HasError (validate plan) then State resp else Some plan)\<rparr>,
             tr2)"
    using assms(1) ok t by (simp add: BucketResource_Read_def Let_def State_Set_cases)
  with create r
  show "BucketResource_Create validate c req resp tr =
          BucketResource_Read validate c \<lparr>Value = ?plan, GetDiags = []\<rparr> ?resp ?tr"
    by simp
qed

theorem bucket_create_reads_back_witness:
  "BucketResource_Create distinct_rules bucket_client \<lparr>Value = bucket_plan, GetDiags = []\<rparr>
       \<lparr>Response.Diagnostics = [], State = None\<rparr> []
     = (Return \<lparr>Response.Diagnostics = [], State = Some bucket_state\<rparr>,
        [Call_CreateBucket
           (Create_newBucket [] ''temp'' ''org1''
              [\<lparr>domain_RetentionRule.EverySeconds = 2592000,
                domain_RetentionRule.Type = Some ''expire''\<rparr>] []),
         Call_FindBucketByID ''b1''])
   \<and> BucketResource_Read distinct_rules bucket_client
       \<lparr>Value = bucket_plan\<lparr>BucketResourceModel.ID := StringValue ''b1''\<rparr>, GetDiags = []\<rparr>
       \<lparr>Response.Diagnostics = [], State = None\<rparr>
       [Call_CreateBucket
           (Create_newBucket [] ''temp'' ''org1''
              [\<lparr>domain_RetentionRule.EverySeconds = 2592000,
                domain_RetentionRule.Type = Some ''expire''\<rparr>] [])]
     = BucketResource_Create distinct_rules bucket_client
         \<lparr>Value = bucket_plan, GetDiags = []\<rparr>
         \<lparr>Response.Diagnostics = [], State = None\<rparr> []
   \<and> fst (BucketResource_Create distinct_rules twin_rules_client
            \<lparr>Value = bucket_plan, GetDiags = []\<rparr>
            \<lparr>Response.Diagnostics = [], State = None\<rparr> [])
     = Return \<lparr>Response.Diagnostics =
           [\<lparr>Severity = SeverityError, Summary = ''Duplicate Set Element'',
             Detail = ''This attribute contains duplicate values''\<rparr>],
         State = None\<rparr>"
proof -
  let ?rules = "[\<lparr>domain_RetentionRule.EverySeconds = 2592000,
                  domain_RetentionRule.Type = Some ''expire''\<rparr>]"
  let ?nb = "Create_newBucket [] ''temp'' ''org1'' ?rules []"
  let ?req = "\<lparr>Value = bucket_plan, GetDiags = []\<rparr>"
  let ?resp = "\<lparr>Response.Diagnostics = [], State = None :: BucketResourceModel option\<rparr>"
  let ?plan = "bucket_plan\<lparr>BucketResourceModel.ID := StringValue ''b1''\<rparr>"
  have h1: "\<not> HasError (Append (Response.Diagnostics ?resp) (GetDiags ?req))"
    by simp
  have h2: "convertRetentionRulesToDomain (BucketResourceModel.RetentionRules (Value ?req))
              = Inr ?rules"
    by (simp add: convertRetentionRulesToDomain_def bucket_plan_def)
  have h3: "?nb =
           Create_newBucket (ValueString (BucketResourceModel.Description (Value ?req)))
             (ValueString (BucketResourceModel.Name (Value ?req)))
             (ValueString (BucketResourceModel.OrgID (Value ?req)))
             ?rules (ValueString (BucketResourceModel.RP (Value ?req)))"
    by (simp add: bucket_plan_def)
  have id: "domain_Bucket.Id sample_bucket = Some ''b1''"
    by (simp add: sample_bucket_def)
  have valid: "distinct_rules bucket_state = []"
    by (simp add: distinct_rules_def bucket_state_def)
  have rd: "readBucket bucket_client ?plan [Call_CreateBucket ?nb]
            = (Return (None, bucket_state), [Call_CreateBucket ?nb, Call_FindBucketByID ''b1''])"
    by (simp add: readBucket_def bucket_client_def offline_client_def sample_bucket_def
          bucket_plan_def bucket_state_def update_bucket_model_def Let_def
          convertRetentionRulesToTerraform_map)
  have h4: "CreateBucket bucket_client [] ?nb = Inr (Some sample_bucket)"
    by (simp add: bucket_client_def)
  note inst = bucket_create_reads_back
    [OF h1 h2 h3 h4, of distinct_rules, THEN conjunct2, THEN conjunct2, THEN spec, THEN mp, OF id]
  have t: "snd (BucketResource_Create distinct_rules bucket_client ?req ?resp [])
          = [Call_CreateBucket ?nb, Call_FindBucketByID ''b1'']"
    using inst [THEN conjunct1] by simp
  have r: "fst (BucketResource_Create distinct_rules bucket_client ?req ?resp [])
          = Return \<lparr>Response.Diagnostics = [], State = Some bucket_state\<rparr>"
    using inst [THEN conjunct2, THEN conjunct1] rd valid by simp
  have created: "BucketResource_Create distinct_rules bucket_client ?req ?resp []
          = (Return \<lparr>Response.Diagnostics = [], State = Some bucket_state\<rparr>,
             [Call_CreateBucket ?nb, Call_FindBucketByID ''b1''])"
    using t r by (simp add: prod_eq_iff)
  have "BucketResource_Create distinct_rules bucket_client ?req ?resp [] =
          BucketResource_Read distinct_rules bucket_client
            \<lparr>Value = ?plan, GetDiags = []\<rparr> ?resp [Call_CreateBucket ?nb]"
    using inst [THEN conjunct2, THEN conjunct2, simplified] rd by blast
  then have same: "BucketResource_Read distinct_rules bucket_client
                     \<lparr>Value = ?plan, GetDiags = []\<rparr> ?resp [Call_CreateBucket ?nb]
                   = BucketResource_Create distinct_rules bucket_client ?req ?resp []"
    by (rule sym)
  have twin: "fst (BucketResource_Create distinct_rules twin_rules_client ?req ?resp [])
     = Return \<lparr>Response.Diagnostics =
           [\<lparr>Severity = SeverityError, Summary = ''Duplicate Set Element'',
             Detail = ''This attribute contains duplicate values''\<rparr>],
         State = None\<rparr>"
    by (simp add: BucketResource_Create_def readBucket_def twin_rules_client_def
          twin_rules_bucket_def offline_client_def sample_bucket_def bucket_plan_def
          update_bucket_model_def Let_def convertRetentionRulesToTerraform_map
          convertRetentionRulesToDomain_def Create_newBucket_def State_Set_cases
          distinct_rules_def)
  show ?thesis
    using created same twin by (intro conjI)
qed

subsection \<open>Provider configuration\<close>

lemma Configure_url_nonempty: "Configure_url env config \<noteq> []"
  by (simp add: Configure_url_def Let_def)

text \<open>
  C7. The token is the configured value when the attribute is not null and the value of
  \<open>INFLUXDB_V2_TOKEN\<close> otherwise. When it is empty, Configure makes no call (no client is
  constructed and the server is not probed) and hands no client on; and when the
  configuration was decoded without error, it adds the error diagnostic that names the
  token, the environment variable and the attribute of the configuration block.
\<close>

theorem configure_missing_token:
  "Configure_token env config =
     (if IsNull (influxdbProviderModel.Token config) then Getenv env ''INFLUXDB_V2_TOKEN''
      else ValueString (influxdbProviderModel.Token config))
   \<and> (Configure_token env (Value req) = [] \<longrightarrow>
        snd (influxdbProvider_Configure env req resp tr) = tr
        \<and> DataSourceData (fst (influxdbProvider_Configure env req resp tr))
            = DataSourceData resp
        \<and> ResourceData (fst (influxdbProvider_Configure env req resp tr))
            = ResourceData resp)
   \<and> (Configure_token env (Value req) = []
        \<and> \<not> HasError (Append (ConfigureResponse.Diagnostics resp) (GetDiags req)) \<longrightarrow>
        ConfigureResponse.Diagnostics (fst (influxdbProvider_Configure env req resp tr)) =
          AddError (Append (ConfigureResponse.Diagnostics resp) (GetDiags req))
            ''Missing InfluxDB Token Configuration''
            (''While configuring the provider, the InfluxDB token was not found in the ''
               @ ''INFLUXDB_V2_TOKEN'' @ '' environment variable or provider configuration block ''
               @ ''token'' @ '' attribute.''))"
proof (intro conjI impI)
  show "Configure_token env config =
     (if IsNull (influxdbProviderModel.Token config) then Getenv env ''INFLUXDB_V2_TOKEN''
      else ValueString (influxdbProviderModel.Token config))"
    by (simp add: Configure_token_def Let_def)
next
  assume empty: "Configure_token env (Value req) = []"
  have stop: "influxdbProvider_Configure env req resp tr =
      (if HasError (Append (ConfigureResponse.Diagnostics resp) (GetDiags req))
       then resp\<lparr>ConfigureResponse.Diagnostics :=
              Append (ConfigureResponse.Diagnostics resp) (GetDiags req)\<rparr>
       else resp\<lparr>ConfigureResponse.Diagnostics :=
              AddError (Append (ConfigureResponse.Diagnostics resp) (GetDiags req))
                ''Missing InfluxDB Token Configuration''
                (''While configuring the provider, the InfluxDB token was not found in ''
                   @ ''the INFLUXDB_V2_TOKEN environment variable or provider ''
                   @ ''configuration block token attribute.'')\<rparr>,
       tr)"
    using empty Configure_url_nonempty[of env "Value req"]
    by (simp add: influxdbProvider_Configure_def Let_def HasError_AddError)
  show "snd (influxdbProvider_Configure env req resp tr) = tr"
    by (simp add: stop)
  show "DataSourceData (fst (influxdbProvider_Configure env req resp tr)) = DataSourceData resp"
    by (simp add: stop)
  show "ResourceData (fst (influxdbProvider_Configure env req resp tr)) = ResourceData resp"
    by (simp add: stop)
next
  assume both: "Configure_token env (Value req) = []
        \<and> \<not> HasError (Append (ConfigureResponse.Diagnostics resp) (GetDiags req))"
  then show "ConfigureResponse.Diagnostics (fst (influxdbProvider_Configure env req resp tr)) =
          AddError (Append (ConfigureResponse.Diagnostics resp) (GetDiags req))
            ''Missing InfluxDB Token Configuration''
            (''While configuring the provider, the InfluxDB token was not found in the ''
               @ ''INFLUXDB_V2_TOKEN'' @ '' environment variable or provider configuration block ''
               @ ''token'' @ '' attribute.'')"
    using Configure_url_nonempty[of env "Value req"]
    by (simp add: influxdbProvider_Configure_def Let_def HasError_AddError)
qed

theorem configure_missing_token_witness:
  "Configure_token sample_env null_config = []
   \<and> influxdbProvider_Configure sample_env \<lparr>Value = null_config, GetDiags = []\<rparr>
       empty_ConfigureResponse []
     = (\<lparr>ConfigureResponse.Diagnostics =
           [\<lparr>Severity = SeverityError, Summary = ''Missing InfluxDB Token Configuration'',
             Detail = ''While configuring the provider, the InfluxDB token was not found in the INFLUXDB_V2_TOKEN environment variable or provider configuration block token attribute.''\<rparr>],
         DataSourceData = None, ResourceData = None\<rparr>, [])"
proof -
  let ?req = "\<lparr>Value = null_config, GetDiags = []\<rparr>"
  have tok: "Configure_token sample_env (Value ?req) = []"
    by (simp add: Configure_token_def sample_env_def null_config_def)
  have ok: "\<not> HasError (Append (ConfigureResponse.Diagnostics empty_ConfigureResponse) (GetDiags ?req))"
    by (simp add: empty_ConfigureResponse_def)
  note inst = configure_missing_token [of sample_env null_config ?req empty_ConfigureResponse "[]"]
  have t: "snd (influxdbProvider_Configure sample_env ?req empty_ConfigureResponse []) = []"
    using inst tok by blast
  have d: "DataSourceData (fst (influxdbProvider_Configure sample_env ?req
             empty_ConfigureResponse [])) = None"
    using inst tok by (simp add: empty_ConfigureResponse_def)
  have r: "ResourceData (fst (influxdbProvider_Configure sample_env ?req
             empty_ConfigureResponse [])) = None"
    using inst tok by (simp add: empty_ConfigureResponse_def)
  have g: "ConfigureResponse.Diagnostics (fst (influxdbProvider_Configure sample_env ?req
             empty_ConfigureResponse [])) =
           [\<lparr>Severity = SeverityError, Summary = ''Missing InfluxDB Token Configuration'',
             Detail = ''While configuring the provider, the InfluxDB token was not found in the INFLUXDB_V2_TOKEN environment variable or provider configuration block token attribute.''\<rparr>]"
    using inst tok ok by (simp add: empty_ConfigureResponse_def AddError_def)
  have "fst (influxdbProvider_Configure sample_env ?req empty_ConfigureResponse []) =
          \<lparr>ConfigureResponse.Diagnostics =
           [\<lparr>Severity = SeverityError, Summary = ''Missing InfluxDB Token Configuration'',
             Detail = ''While configuring the provider, the InfluxDB token was not found in the INFLUXDB_V2_TOKEN environment variable or provider configuration block token attribute.''\<rparr>],
         DataSourceData = None, ResourceData = None\<rparr>"
    using d r g by (cases "fst (influxdbProvider_Configure sample_env ?req empty_ConfigureResponse [])") simp
  with t tok show ?thesis by (simp add: prod_eq_iff)
qed

text \<open>
  C9. The url that Configure tests is never empty, since the default is applied before
  the test: Configure adds no diagnostic titled \<open>Missing InfluxDB URL Configuration\<close>,
  whatever the configuration, the environment and the server. A url configured as the
  empty string resolves to the default, whatever \<open>INFLUXDB_V2_URL\<close> holds.
\<close>

theorem configure_url_never_missing:
  "Configure_url env config \<noteq> []
   \<and> filter (\<lambda>d. Summary d = ''Missing InfluxDB URL Configuration'')
        (ConfigureResponse.Diagnostics (fst (influxdbProvider_Configure env req resp tr)))
     = filter (\<lambda>d. Summary d = ''Missing InfluxDB URL Configuration'')
        (Append (ConfigureResponse.Diagnostics resp) (GetDiags req))
   \<and> Configure_url env (config\<lparr>influxdbProviderModel.URL := StringValue []\<rparr>)
     = ''http://localhost:8086''"
proof (intro conjI)
  show "Configure_url env config \<noteq> []"
    by (rule Configure_url_nonempty)
next
  let ?ds = "Append (ConfigureResponse.Diagnostics resp) (GetDiags req)"
  let ?url = "Configure_url env (Value req)"
  let ?token = "Configure_token env (Value req)"
  let ?ready = "Client.Ready (NewClientWithOptions env ?url ?token)
                  (tr @ [Call_NewClientWithOptions ?url ?token])"
  have url: "?url \<noteq> []"
    by (rule Configure_url_nonempty)
  have added: "\<exists>extra. ConfigureResponse.Diagnostics
                         (fst (influxdbProvider_Configure env req resp tr)) = ?ds @ extra
                 \<and> filter (\<lambda>d. Summary d = ''Missing InfluxDB URL Configuration'') extra = []"
  proof (cases "HasError ?ds")
    case True
    then have "ConfigureResponse.Diagnostics
                 (fst (influxdbProvider_Configure env req resp tr)) = ?ds @ []"
      by (simp add: influxdbProvider_Configure_def)
    then show ?thesis by (metis filter.simps(1))
  next
    case ok: False
    show ?thesis
    proof (cases "?token = []")
      case True
      with ok url have "ConfigureResponse.Diagnostics
                 (fst (influxdbProvider_Configure env req resp tr)) =
             ?ds @ [\<lparr>Severity = SeverityError,
                     Summary = ''Missing InfluxDB Token Configuration'',
                     Detail = ''While configuring the provider, the InfluxDB token was not found in ''
                       @ ''the INFLUXDB_V2_TOKEN environment variable or provider ''
                       @ ''configuration block token attribute.''\<rparr>]"
        by (simp add: influxdbProvider_Configure_def Let_def HasError_AddError AddError_new)
      then show ?thesis by simp
    next
      case token: False
      show ?thesis
      proof (cases ?ready)
        case (Inl err)
        with ok url token have "ConfigureResponse.Diagnostics
                 (fst (influxdbProvider_Configure env req resp tr)) =
             ?ds @ [\<lparr>Severity = SeverityError,
                     Summary = ''Unable to Connect to InfluxDB Server'',
                     Detail = ''An unexpected error occurred when connecting to the InfluxDB server. ''
                       @ ''If the error is not clear, please contact the provider developers.''
                       @ [CHR 0x0A, CHR 0x0A]
                       @ ''InfluxDB Client Error: '' @ err\<rparr>]"
          by (simp add: influxdbProvider_Configure_def Let_def AddError_new)
        then show ?thesis by simp
      next
        case (Inr ready)
        have not_ready: "filter (\<lambda>d. Summary d = ''Missing InfluxDB URL Configuration'')
                 [\<lparr>Severity = SeverityError, Summary = ''InfluxDB Server Not Ready'',
                   Detail = ''The InfluxDB server is not ready to accept connections.''\<rparr>] = []"
          by simp
        from Inr ok url token
        have "ConfigureResponse.Diagnostics
                 (fst (influxdbProvider_Configure env req resp tr)) = ?ds @ []
            \<or> ConfigureResponse.Diagnostics
                 (fst (influxdbProvider_Configure env req resp tr)) =
                ?ds @ [\<lparr>Severity = SeverityError, Summary = ''InfluxDB Server Not Ready'',
                   Detail = ''The InfluxDB server is not ready to accept connections.''\<rparr>]"
          by (simp add: influxdbProvider_Configure_def Let_def AddError_new
                split: option.splits)
        with not_ready show ?thesis by (metis filter.simps(1))
      qed
    qed
  qed
  then obtain extra where
      "ConfigureResponse.Diagnostics (fst (influxdbProvider_Configure env req resp tr))
         = ?ds @ extra"
      "filter (\<lambda>d. Summary d = ''Missing InfluxDB URL Configuration'') extra = []"
    by blast
  then show "filter (\<lambda>d. Summary d = ''Missing InfluxDB URL Configuration'')
        (ConfigureResponse.Diagnostics (fst (influxdbProvider_Configure env req resp tr)))
     = filter (\<lambda>d. Summary d = ''Missing InfluxDB URL Configuration'') ?ds"
    by simp
next
  show "Configure_url env (config\<lparr>influxdbProviderModel.URL := StringValue []\<rparr>)
     = ''http://localhost:8086''"
    by (simp add: Configure_url_def Let_def)
qed

theorem configure_url_never_missing_witness:
  "Getenv sample_env ''INFLUXDB_V2_URL'' = ''http://influx.example:8086''
   \<and> Configure_url sample_env (null_config\<lparr>influxdbProviderModel.URL := StringValue []\<rparr>)
     = ''http://localhost:8086''
   \<and> Configure_url sample_env null_config = ''http://influx.example:8086''"
  using configure_url_never_missing [of sample_env null_config]
  by (simp add: sample_env_def Configure_url_def null_config_def)

subsection \<open>Authorization: creating\<close>

lemma flattened_permissions_Cons:
  "flattened_permissions (perm # rest) =
     map (domain_permission_of perm) (snd (ElementsAs (PermissionModel.Resource perm)))
       @ flattened_permissions rest"
  by (simp add: flattened_permissions_def domain_permission_of_def Let_def)

lemma permissions_loop_flattens:
  "list_all (\<lambda>perm. \<not> fst (ElementsAs (PermissionModel.Resource perm))) permissions \<Longrightarrow>
   permissions_loop permissions domainPermissions
     = Inr (domainPermissions @ flattened_permissions permissions)"
proof (induction permissions arbitrary: domainPermissions)
  case Nil
  show ?case by (simp add: flattened_permissions_def)
next
  case (Cons perm rest)
  obtain failed resources
    where els: "ElementsAs (PermissionModel.Resource perm) = (failed, resources)"
    by (cases "ElementsAs (PermissionModel.Resource perm)") auto
  from Cons.prems els have ok: "\<not> failed"
    and rest: "list_all (\<lambda>perm. \<not> fst (ElementsAs (PermissionModel.Resource perm))) rest"
    by simp_all
  show ?case
    using els ok Cons.IH [OF rest] by (simp add: flattened_permissions_Cons)
qed

lemma length_flattened_permissions:
  "length (flattened_permissions permissions)
     = sum_list (map (\<lambda>perm. length (snd (ElementsAs (PermissionModel.Resource perm))))
                  permissions)"
  by (induction permissions) (simp_all add: flattened_permissions_def)

lemma flattened_permissions_skips_empty:
  "flattened_permissions
     (filter (\<lambda>perm. snd (ElementsAs (PermissionModel.Resource perm)) \<noteq> []) permissions)
     = flattened_permissions permissions"
  by (induction permissions) (simp_all add: flattened_permissions_def)

text \<open>
  C10. For a permissions set whose resource sets are all readable (none is unknown),
  \<open>convertPermissionsToDomain\<close> yields the flattening: one domain permission for each
  resource of each entry, with the action of the entry. Their number is the total number
  of resources, an entry with an empty resource set contributes nothing, and they are
  the permissions of the authorization that Create sends to \<open>CreateAuthorization\<close>,
  which carries besides them the description, the status and the organization of the
  plan and nothing else.
\<close>

theorem permissions_flattened:
  assumes "ElementsAs permsSet = (False, permissions)"
    and "list_all (\<lambda>perm. \<not> fst (ElementsAs (PermissionModel.Resource perm))) permissions"
  shows "convertPermissionsToDomain permsSet = Inr (flattened_permissions permissions)
       \<and> length (flattened_permissions permissions)
           = sum_list (map (\<lambda>perm. length (snd (ElementsAs (PermissionModel.Resource perm))))
                        permissions)
       \<and> flattened_permissions
           (filter (\<lambda>perm. snd (ElementsAs (PermissionModel.Resource perm)) \<noteq> []) permissions)
           = flattened_permissions permissions
       \<and> (\<not> HasError (Append (Response.Diagnostics resp) (GetDiags req))
            \<and> AuthorizationResourceModel.Permissions (Value req) = permsSet \<longrightarrow>
          snd (AuthorizationResource_Create validate c req resp tr) =
            tr @ [Call_CreateAuthorization
                    \<lparr>domain_Authorization.Description =
                       Some (ValueString (AuthorizationResourceModel.Description (Value req))),
                     domain_Authorization.Status =
                       Some (ValueString (AuthorizationResourceModel.Status (Value req))),
                     domain_Authorization.Id = None,
                     domain_Authorization.OrgID =
                       Some (ValueString (AuthorizationResourceModel.OrgID (Value req))),
                     domain_Authorization.Permissions =
                       Some (flattened_permissions permissions),
                     domain_Authorization.Token = None,
                     domain_Authorization.UserID = None\<rparr>])"
proof -
  have conv: "convertPermissionsToDomain permsSet = Inr (flattened_permissions permissions)"
    using assms(1) permissions_loop_flattens [OF assms(2), of "[]"]
    by (simp add: convertPermissionsToDomain_def)
  have sent: "snd (AuthorizationResource_Create validate c req resp tr) =
            tr @ [Call_CreateAuthorization
                    \<lparr>domain_Authorization.Description =
                       Some (ValueString (AuthorizationResourceModel.Description (Value req))),
                     domain_Authorization.Status =
                       Some (ValueString (AuthorizationResourceModel.Status (Value req))),
                     domain_Authorization.Id = None,
                     domain_Authorization.OrgID =
                       Some (ValueString (AuthorizationResourceModel.OrgID (Value req))),
                     domain_Authorization.Permissions =
                       Some (flattened_permissions permissions),
                     domain_Authorization.Token = None,
                     domain_Authorization.UserID = None\<rparr>]"
    if "\<not> HasError (Append (Response.Diagnostics resp) (GetDiags req))
        \<and> AuthorizationResourceModel.Permissions (Value req) = permsSet"
    using that conv
    by (simp add: AuthorizationResource_Create_def Create_authorization_def Let_def
          split: sum.splits option.splits)
  show ?thesis
    using conv sent length_flattened_permissions flattened_permissions_skips_empty
    by blast
qed

theorem permissions_flattened_witness:
  "convertPermissionsToDomain (SetValue three_entries)
     = Inr [\<lparr>domain_Permission.Action = ''read'',
             domain_Permission.Resource = bucket_domain_resource ''b1''\<rparr>,
            \<lparr>domain_Permission.Action = ''read'',
             domain_Permission.Resource = bucket_domain_resource ''b2''\<rparr>,
            \<lparr>domain_Permission.Action = ''delete'',
             domain_Permission.Resource = bucket_domain_resource ''b1''\<rparr>]
   \<and> snd (AuthorizationResource_Create accept issuing_client
         \<lparr>Value = stored_model\<lparr>AuthorizationResourceModel.Permissions := SetValue three_entries\<rparr>,
          GetDiags = []\<rparr>
         \<lparr>Response.Diagnostics = [], State = None\<rparr> [])
     = [Call_CreateAuthorization
          \<lparr>domain_Authorization.Description = Some ''ci token'',
           domain_Authorization.Status = Some ''active'',
           domain_Authorization.Id = None,
           domain_Authorization.OrgID = Some ''org1'',
           domain_Authorization.Permissions = Some
             [\<lparr>domain_Permission.Action = ''read'',
               domain_Permission.Resource = bucket_domain_resource ''b1''\<rparr>,
              \<lparr>domain_Permission.Action = ''read'',
               domain_Permission.Resource = bucket_domain_resource ''b2''\<rparr>,
              \<lparr>domain_Permission.Action = ''delete'',
               domain_Permission.Resource = bucket_domain_resource ''b1''\<rparr>],
           domain_Authorization.Token = None,
           domain_Authorization.UserID = None\<rparr>]"
proof -
  let ?req = "\<lparr>Value = stored_model\<lparr>AuthorizationResourceModel.Permissions := SetValue three_entries\<rparr>,
          GetDiags = []\<rparr>"
  let ?resp = "\<lparr>Response.Diagnostics = [], State = None :: AuthorizationResourceModel option\<rparr>"
  have h1: "ElementsAs (SetValue three_entries) = (False, three_entries)"
    by simp
  have h2: "list_all (\<lambda>perm. \<not> fst (ElementsAs (PermissionModel.Resource perm))) three_entries"
    by (simp add: three_entries_def)
  have flat: "flattened_permissions three_entries =
           [\<lparr>domain_Permission.Action = ''read'',
             domain_Permission.Resource = bucket_domain_resource ''b1''\<rparr>,
            \<lparr>domain_Permission.Action = ''read'',
             domain_Permission.Resource = bucket_domain_resource ''b2''\<rparr>,
            \<lparr>domain_Permission.Action = ''delete'',
             domain_Permission.Resource = bucket_domain_resource ''b1''\<rparr>]"
    by (simp add: flattened_permissions_def three_entries_def bucket_resource_def
          bucket_domain_resource_def)
  note inst = permissions_flattened [OF h1 h2, of ?resp ?req accept issuing_client "[]"]
  have conv: "convertPermissionsToDomain (SetValue three_entries)
                = Inr (flattened_permissions three_entries)"
    using inst by (rule conjunct1)
  have sent: "snd (AuthorizationResource_Create accept issuing_client ?req ?resp []) =
            [Call_CreateAuthorization
               \<lparr>domain_Authorization.Description = Some ''ci token'',
                domain_Authorization.Status = Some ''active'',
                domain_Authorization.Id = None,
                domain_Authorization.OrgID = Some ''org1'',
                domain_Authorization.Permissions = Some (flattened_permissions three_entries),
                domain_Authorization.Token = None,
                domain_Authorization.UserID = None\<rparr>]"
    using inst [THEN conjunct2, THEN conjunct2, THEN conjunct2]
    by (simp add: stored_model_def)
  show ?thesis
    using conv sent unfolding flat by (rule conjI)
qed

subsection \<open>Authorization: schema\<close>

text \<open>
  C5, the schema as the code has it. Neither \<open>permissions\<close> (whose list of plan
  modifiers is empty) nor \<open>description\<close> (which has none) carries \<open>RequiresReplace\<close>;
  only \<open>org_id\<close> does. A change of the description or of the permissions alone is
  planned as an update in place; Update then sends the status alone, and the state takes
  the planned description while the store keeps the one it had.
\<close>

theorem authorization_schema_replacement:
  "\<not> RequiresReplacement AuthorizationResource_Schema ''permissions''
   \<and> \<not> RequiresReplacement AuthorizationResource_Schema ''description''
   \<and> RequiresReplacement AuthorizationResource_Schema ''org_id''
   \<and> classify_change AuthorizationResource_Schema [''description''] = UpdateInPlace
   \<and> classify_change AuthorizationResource_Schema [''permissions''] = UpdateInPlace
   \<and> classify_change AuthorizationResource_Schema [''org_id''] = Replace
   \<and> AuthorizationResource_Update accept
       (listing_client
          [empty_Authorization\<lparr>domain_Authorization.Id := Some ''a1'',
                               domain_Authorization.Description := Some ''ci token''\<rparr>])
       \<lparr>Value = stored_model\<lparr>AuthorizationResourceModel.Description :=
                                StringValue ''renamed''\<rparr>,
        GetDiags = []\<rparr>
       \<lparr>Response.Diagnostics = [], State = Some stored_model\<rparr> []
     = (Return \<lparr>Response.Diagnostics = [],
          State = Some (stored_model\<lparr>AuthorizationResourceModel.Description :=
                                       StringValue ''renamed''\<rparr>)\<rparr>,
        [Call_UpdateAuthorizationStatus (Update_authorization ''a1'') ''active'',
         Call_FindAuthorizationsByOrgID ''org1''])"
proof (intro conjI)
  show "\<not> RequiresReplacement AuthorizationResource_Schema ''permissions''"
    by (simp add: RequiresReplacement_def AuthorizationResource_Schema_def)
  show "\<not> RequiresReplacement AuthorizationResource_Schema ''description''"
    by (simp add: RequiresReplacement_def AuthorizationResource_Schema_def)
  show "RequiresReplacement AuthorizationResource_Schema ''org_id''"
    by (simp add: RequiresReplacement_def AuthorizationResource_Schema_def)
  show "classify_change AuthorizationResource_Schema [''description''] = UpdateInPlace"
    by (simp add: classify_change_def RequiresReplacement_def AuthorizationResource_Schema_def)
  show "classify_change AuthorizationResource_Schema [''permissions''] = UpdateInPlace"
    by (simp add: classify_change_def RequiresReplacement_def AuthorizationResource_Schema_def)
  show "classify_change AuthorizationResource_Schema [''org_id''] = Replace"
    by (simp add: classify_change_def RequiresReplacement_def AuthorizationResource_Schema_def)
  show "AuthorizationResource_Update accept
       (listing_client
          [empty_Authorization\<lparr>domain_Authorization.Id := Some ''a1'',
                               domain_Authorization.Description := Some ''ci token''\<rparr>])
       \<lparr>Value = stored_model\<lparr>AuthorizationResourceModel.Description :=
                                StringValue ''renamed''\<rparr>,
        GetDiags = []\<rparr>
       \<lparr>Response.Diagnostics = [], State = Some stored_model\<rparr> []
     = (Return \<lparr>Response.Diagnostics = [],
          State = Some (stored_model\<lparr>AuthorizationResourceModel.Description :=
                                       StringValue ''renamed''\<rparr>)\<rparr>,
        [Call_UpdateAuthorizationStatus (Update_authorization ''a1'') ''active'',
         Call_FindAuthorizationsByOrgID ''org1''])"
    by (simp add: AuthorizationResource_Update_def readAuthorization_def listing_client_def
          offline_client_def stored_model_def empty_Authorization_def update_model_from_def
          State_Set_cases Update_authorization_def accept_def)
qed

end
